theory Spec2Isabelle
  imports Main "HOL-Library.Multiset"
begin

section \<open>The study-plan scheduler of \<^verbatim>\<open>src/screens/UserDashboard.tsx\<close>\<close>

text \<open>
  The development embeds \<^verbatim>\<open>expandCycleItems\<close>, \<^verbatim>\<open>isSimuladoCompleted\<close>,
  \<^verbatim>\<open>getDayName\<close> and \<^verbatim>\<open>generateSchedule\<close>.

  Conventions of the embedding:
  \<^item> A calendar date string \<^verbatim>\<open>YYYY-MM-DD\<close> is represented by its day number, the number of
    days since 1970-01-01 (a Thursday).  Start dates are well-formed date strings.
  \<^item> JavaScript numbers are integers (\<open>int\<close>); counters that only count up from zero are
    \<open>nat\<close>.
  \<^item> An optional string field is a \<open>string option\<close>; JavaScript truthiness of such a
    field (\<^verbatim>\<open>if (item.folderId)\<close>) is \<open>truthy\<close>: defined and not the empty string.
  \<^item> \<^verbatim>\<open>Record<string, T>\<close> objects are maps; identifiers are not names of
    \<^verbatim>\<open>Object.prototype\<close> properties.
  \<^item> \<^verbatim>\<open>calculateGoalDuration\<close> lives in \<^verbatim>\<open>constants.ts\<close>, which is not part of
    the sources at hand: it is a parameter of the model.
  \<^item> The browser's time zone is a parameter as well: \<open>tzOffset\<close> is the value of
    \<^verbatim>\<open>Date.prototype.getTimezoneOffset()\<close> (minutes to add to local time to obtain UTC), taken
    as constant over the run.
\<close>

subsection \<open>Data model\<close>

type_synonym DateStr = int

datatype UserLevel = iniciante | intermediario | avancado

datatype CycleSystem = continuo | rotativo

record Goal =
  goal_id :: string
  goal_type :: string
  goal_title :: string
  goal_order :: int

record Subject =
  subject_name :: string
  subject_order :: int
  goals :: "Goal list"

record Discipline =
  discipline_id :: string
  discipline_name :: string
  discipline_folderId :: "string option"
  discipline_order :: int
  subjects :: "Subject list"

record CycleItem =
  folderId :: "string option"
  disciplineId :: "string option"
  simuladoId :: "string option"
  subjectsCount :: int

record Cycle =
  cycle_id :: string
  items :: "CycleItem list"

record StudyPlan =
  disciplines :: "Discipline list"
  cycles :: "Cycle list"
  cycleSystem :: "CycleSystem option"

record Routine =
  days :: "(string \<times> int) list"

record Simulado =
  simulado_id :: string
  simulado_title :: string
  totalQuestions :: int

record SimuladoAttempt =
  attempt_simuladoId :: string

text \<open>
  The template literals that build \<^verbatim>\<open>uniqueId\<close> start with \<^verbatim>\<open>${dateStr}_\<close>.  A date string
  has no underscore, so the identifier is represented by the pair of the date and of the
  text that follows this first separator.
\<close>

record ScheduledItem =
  uniqueId :: "DateStr \<times> string"
  date :: DateStr
  goalId :: string
  goalType :: string
  title :: string
  disciplineName :: string
  subjectName :: string
  duration :: int
  isRevision :: bool
  completed :: bool
  originalGoal :: "Goal option"
  simuladoData :: "Simulado option"

text \<open>
  While flattening a discipline, the source annotates every goal object with
  \<^verbatim>\<open>_subjectName\<close> and \<^verbatim>\<open>_disciplineName\<close>.  A queue element is the goal together with
  these two annotations (goal objects are not shared between subjects).
\<close>

record QueuedGoal =
  goal :: Goal
  x_subjectName :: string
  x_disciplineName :: string

text \<open>The inputs of one run, as captured by the closures of \<^verbatim>\<open>generateSchedule\<close>.\<close>

record Env =
  plan :: StudyPlan
  routine :: Routine
  completedGoals :: "string list"
  userLevel :: UserLevel
  allSimulados :: "Simulado list"
  userAttempts :: "SimuladoAttempt list"
  calculateGoalDuration :: "Goal \<Rightarrow> UserLevel \<Rightarrow> int"

text \<open>
  The mutable variables of the run.  \<open>currentCycleIndex\<close>, \<open>currentItemIndex\<close> and
  \<open>disciplinePointers\<close> live across days; \<open>minutesAvailable\<close>, \<open>itemsProcessedToday\<close>
  and \<open>dayItems\<close> are re-initialised at the start of every day.
\<close>

record State =
  currentCycleIndex :: nat
  currentItemIndex :: nat
  disciplinePointers :: "string \<rightharpoonup> nat"
  minutesAvailable :: int
  itemsProcessedToday :: nat
  dayItems :: "ScheduledItem list"

text \<open>The local variables of one visit of a discipline (the inner \<^verbatim>\<open>while\<close>).\<close>

record Slot =
  scheduledInThisSlot :: nat
  lastSubName :: string
  processedSomething :: bool
  pointer :: nat

datatype Ctl = Break | Continue

subsection \<open>Helpers\<close>

fun truthy :: "string option \<Rightarrow> bool" where
  "truthy None = False"
| "truthy (Some s) = (s \<noteq> [])"

definition orElse :: "string \<Rightarrow> string \<Rightarrow> string" where
  \<comment> \<open>\<^verbatim>\<open>s || dflt\<close> on strings\<close>
  "orElse s dflt = (if s = [] then dflt else s)"

text \<open>The decimal text of an integer, as a template literal renders a number.\<close>

definition digitChar :: "nat \<Rightarrow> char" where
  "digitChar k = ''0123456789'' ! k"

fun digitsAcc :: "nat \<Rightarrow> string \<Rightarrow> string" where
  "digitsAcc n acc =
     (if n < 10 then digitChar n # acc
      else digitsAcc (n div 10) (digitChar (n mod 10) # acc))"

definition numberToString :: "int \<Rightarrow> string" where
  "numberToString i =
     (if i < 0 then CHR ''-'' # digitsAcc (nat (- i)) [] else digitsAcc (nat i) [])"

definition MAX_DAYS :: nat where
  "MAX_DAYS = 90"

definition dayMap :: "string list" where
  "dayMap = [''domingo'', ''segunda'', ''terca'', ''quarta'', ''quinta'', ''sexta'', ''sabado'']"

definition getDayName :: "DateStr \<Rightarrow> string" where
  \<comment> \<open>local noon of the given date; day 0 is a Thursday\<close>
  "getDayName dateStr = dayMap ! nat ((dateStr + 4) mod 7)"

definition dateStrOf :: "int \<Rightarrow> DateStr \<Rightarrow> nat \<Rightarrow> DateStr" where
  \<comment> \<open>\<^verbatim>\<open>currentDate\<close> is local midnight of \<open>startDate + dayOffset\<close>; \<^verbatim>\<open>toISOString\<close>
      prints the UTC date of that instant\<close>
  "dateStrOf tzOffset startDate dayOffset =
     ((startDate + int dayOffset) * 1440 + tzOffset) div 1440"

subsection \<open>\<^verbatim>\<open>expandCycleItems\<close> and \<^verbatim>\<open>isSimuladoCompleted\<close>\<close>

definition expandCycleItems :: "Cycle \<Rightarrow> StudyPlan \<Rightarrow> CycleItem list" where
  "expandCycleItems cycle pl =
     concat (map (\<lambda>item.
       if truthy (folderId item) then
         map (\<lambda>d. \<lparr>folderId = None, disciplineId = Some (discipline_id d),
                    simuladoId = None, subjectsCount = subjectsCount item\<rparr>)
             (sort_key discipline_order
                (filter (\<lambda>d. discipline_folderId d = folderId item) (disciplines pl)))
       else if truthy (disciplineId item) then [item]
       else if truthy (simuladoId item) then [item]
       else []) (items cycle))"

definition isSimuladoCompleted :: "string \<Rightarrow> SimuladoAttempt list \<Rightarrow> bool" where
  "isSimuladoCompleted sid attempts = list_ex (\<lambda>a. attempt_simuladoId a = sid) attempts"

subsection \<open>\<^verbatim>\<open>generateSchedule\<close>\<close>

definition flatGoals :: "Discipline \<Rightarrow> QueuedGoal list" where
  "flatGoals d =
     concat (map (\<lambda>s.
       map (\<lambda>g. \<lparr>goal = g, x_subjectName = subject_name s, x_disciplineName = discipline_name d\<rparr>)
           (sort_key goal_order (goals s)))
       (sort_key subject_order (subjects d)))"

definition disciplineQueues :: "StudyPlan \<Rightarrow> (string \<rightharpoonup> QueuedGoal list)" where
  "disciplineQueues pl = fold (\<lambda>d m. m(discipline_id d \<mapsto> flatGoals d)) (disciplines pl) Map.empty"

definition initialPointers :: "StudyPlan \<Rightarrow> (string \<rightharpoonup> nat)" where
  "initialPointers pl = fold (\<lambda>d m. m(discipline_id d \<mapsto> 0)) (disciplines pl) Map.empty"

definition isCycleExhausted :: "Env \<Rightarrow> (string \<rightharpoonup> nat) \<Rightarrow> nat \<Rightarrow> bool" where
  \<comment> \<open>an undefined pointer compares false with every number\<close>
  "isCycleExhausted e ptrs cIndex =
     (if cIndex \<ge> length (cycles (plan e)) then True
      else list_all (\<lambda>item.
        if truthy (simuladoId item) then isSimuladoCompleted (the (simuladoId item)) (userAttempts e)
        else if truthy (disciplineId item) then
          (case ptrs (the (disciplineId item)) of
             None \<Rightarrow> False
           | Some ptr \<Rightarrow>
               ptr \<ge> (case disciplineQueues (plan e) (the (disciplineId item)) of
                        None \<Rightarrow> 0 | Some queue \<Rightarrow> length queue))
        else True) (expandCycleItems (cycles (plan e) ! cIndex) (plan e)))"

definition theCycleSystem :: "StudyPlan \<Rightarrow> CycleSystem" where
  \<comment> \<open>\<^verbatim>\<open>plan.cycleSystem || 'continuo'\<close>\<close>
  "theCycleSystem pl = (case cycleSystem pl of None \<Rightarrow> continuo | Some s \<Rightarrow> s)"

function skipExhausted :: "Env \<Rightarrow> (string \<rightharpoonup> nat) \<Rightarrow> nat \<Rightarrow> nat" where
  "skipExhausted e ptrs cci =
     (if cci < length (cycles (plan e)) \<and> isCycleExhausted e ptrs cci
      then skipExhausted e ptrs (cci + 1) else cci)"
  by pat_completeness auto
termination
  by (relation "measure (\<lambda>(e, ptrs, cci). length (cycles (plan e)) - cci)") auto

definition goalDuration :: "Env \<Rightarrow> Goal \<Rightarrow> int" where
  "goalDuration e g =
     (let duration = calculateGoalDuration e g (userLevel e);
          duration = (if duration = 0 \<and> goal_type g \<noteq> ''AULA'' then 15 else duration);
          duration = (if duration = 0 then 30 else duration)
      in duration)"

definition goalItem :: "DateStr \<Rightarrow> Cycle \<Rightarrow> string \<Rightarrow> QueuedGoal \<Rightarrow> int \<Rightarrow> ScheduledItem" where
  "goalItem dateStr cycle did qg dur =
     \<lparr>uniqueId = (dateStr, cycle_id cycle @ ''_'' @ did @ ''_'' @ goal_id (goal qg)),
      date = dateStr, goalId = goal_id (goal qg), goalType = goal_type (goal qg),
      title = goal_title (goal qg),
      disciplineName = orElse (x_disciplineName qg) ''Disciplina'',
      subjectName = orElse (x_subjectName qg) ''Assunto'',
      duration = dur, isRevision = False, completed = False,
      originalGoal = Some (goal qg), simuladoData = None\<rparr>"

definition simuladoItem :: "DateStr \<Rightarrow> Simulado \<Rightarrow> ScheduledItem" where
  "simuladoItem dateStr simulado =
     \<lparr>uniqueId = (dateStr, ''SIM_'' @ simulado_id simulado),
      date = dateStr, goalId = simulado_id simulado, goalType = ''SIMULADO'',
      title = ''SIMULADO: '' @ simulado_title simulado,
      disciplineName = ''AVALIA'' @ [CHR 0xC7, CHR 0xC3] @ ''O'',
      subjectName = numberToString (totalQuestions simulado) @ '' Quest'' @ [CHR 0xF5] @ ''es'',
      duration = totalQuestions simulado * 3, isRevision = False, completed = False,
      originalGoal = None, simuladoData = Some simulado\<rparr>"

text \<open>The inner \<^verbatim>\<open>while\<close> of a discipline visit (lines 848--886).\<close>

function slotLoop ::
  "Env \<Rightarrow> DateStr \<Rightarrow> Cycle \<Rightarrow> string \<Rightarrow> int \<Rightarrow> QueuedGoal list \<Rightarrow> Slot \<Rightarrow> State \<Rightarrow> Slot \<times> State"
where
  "slotLoop e dateStr cycle did sc queue sl st =
     (if int (scheduledInThisSlot sl) < sc \<and> pointer sl < length queue then
        let qg = queue ! pointer sl in
        if goal_id (goal qg) \<in> set (completedGoals e) then
          slotLoop e dateStr cycle did sc queue
            (sl\<lparr>pointer := pointer sl + 1\<rparr>)
            (st\<lparr>disciplinePointers := (disciplinePointers st)(did \<mapsto> pointer sl + 1)\<rparr>)
        else
          let dur = goalDuration e (goal qg);
              isSameSub = (lastSubName sl \<noteq> [] \<and> x_subjectName qg = lastSubName sl)
          in
          if minutesAvailable st \<ge> dur \<or> itemsProcessedToday st = 0 then
            slotLoop e dateStr cycle did sc queue
              \<lparr>scheduledInThisSlot =
                  (if \<not> isSameSub then scheduledInThisSlot sl + 1 else scheduledInThisSlot sl),
               lastSubName = (if \<not> isSameSub then x_subjectName qg else lastSubName sl),
               processedSomething = True,
               pointer = pointer sl + 1\<rparr>
              (st\<lparr>dayItems := dayItems st @ [goalItem dateStr cycle did qg dur],
                  minutesAvailable := minutesAvailable st - dur,
                  itemsProcessedToday := itemsProcessedToday st + 1,
                  disciplinePointers := (disciplinePointers st)(did \<mapsto> pointer sl + 1)\<rparr>)
          else (sl, st\<lparr>minutesAvailable := 0\<rparr>)
      else (sl, st))"
  by pat_completeness auto
termination
  by (relation "measure (\<lambda>(e, dateStr, cycle, did, sc, queue, sl, st). length queue - pointer sl)")
     auto

text \<open>One iteration of the day's \<^verbatim>\<open>while\<close> (lines 762--893), after the safety counter
  has been incremented.\<close>

definition loopBody :: "Env \<Rightarrow> DateStr \<Rightarrow> State \<Rightarrow> Ctl \<times> State" where
  "loopBody e dateStr st0 =
     (if currentCycleIndex st0 \<ge> length (cycles (plan e)) \<and> theCycleSystem (plan e) \<noteq> rotativo
      then (Break, st0)
      else
        let st = (if currentCycleIndex st0 \<ge> length (cycles (plan e))
                  then st0\<lparr>currentCycleIndex := 0\<rparr> else st0)
        in
        if currentCycleIndex st \<ge> length (cycles (plan e)) then (Break, st)
        else
          let cycle = cycles (plan e) ! currentCycleIndex st;
              activeItems = expandCycleItems cycle (plan e)
          in
          if currentItemIndex st \<ge> length activeItems then
            (if theCycleSystem (plan e) = continuo then
               (if isCycleExhausted e (disciplinePointers st) (currentCycleIndex st)
                then (Continue, st\<lparr>currentCycleIndex := currentCycleIndex st + 1,
                                    currentItemIndex := 0\<rparr>)
                else (Continue, st\<lparr>currentItemIndex := 0\<rparr>))
             else (Continue, st\<lparr>currentCycleIndex := currentCycleIndex st + 1,
                                 currentItemIndex := 0\<rparr>))
          else
            let cycleItem = activeItems ! currentItemIndex st in
            if truthy (simuladoId cycleItem) then
              (let sid = the (simuladoId cycleItem) in
               if isSimuladoCompleted sid (userAttempts e)
               then (Continue, st\<lparr>currentItemIndex := currentItemIndex st + 1\<rparr>)
               else
                 (case find (\<lambda>s. simulado_id s = sid) (allSimulados e) of
                    Some simulado \<Rightarrow>
                      if itemsProcessedToday st = 0 \<or> minutesAvailable st > 60 then
                        (Continue,
                         st\<lparr>dayItems := dayItems st @ [simuladoItem dateStr simulado],
                            minutesAvailable := 0,
                            itemsProcessedToday := itemsProcessedToday st + 1,
                            currentItemIndex := currentItemIndex st + 1\<rparr>)
                      else (Break, st\<lparr>minutesAvailable := 0\<rparr>)
                  | None \<Rightarrow> (Continue, st\<lparr>currentItemIndex := currentItemIndex st + 1\<rparr>)))
            else if truthy (disciplineId cycleItem) then
              (let did = the (disciplineId cycleItem) in
               case disciplineQueues (plan e) did of
                 None \<Rightarrow> (Continue, st\<lparr>currentItemIndex := currentItemIndex st + 1\<rparr>)
               | Some queue \<Rightarrow>
                   (case disciplinePointers st did of
                      None \<Rightarrow>
                        \<comment> \<open>not reachable: both tables have the same keys; an undefined
                            pointer fails every comparison\<close>
                        (Continue,
                         if 0 \<ge> subjectsCount cycleItem
                         then st\<lparr>currentItemIndex := currentItemIndex st + 1\<rparr> else st)
                    | Some ptr \<Rightarrow>
                        if ptr \<ge> length queue
                        then (Continue, st\<lparr>currentItemIndex := currentItemIndex st + 1\<rparr>)
                        else
                          (case slotLoop e dateStr cycle did (subjectsCount cycleItem) queue
                                  \<lparr>scheduledInThisSlot = 0, lastSubName = [],
                                   processedSomething = False, pointer = ptr\<rparr> st of
                             (sl, st') \<Rightarrow>
                               if int (scheduledInThisSlot sl) \<ge> subjectsCount cycleItem
                                  \<or> pointer sl \<ge> length queue
                               then (Continue, st'\<lparr>currentItemIndex := currentItemIndex st' + 1\<rparr>)
                               else if \<not> processedSomething sl \<and> minutesAvailable st' \<le> 0
                               then (Break, st')
                               else (Continue, st'))))
            else (Continue, st))"

text \<open>The day's \<^verbatim>\<open>while (minutesAvailable > 0 && safetyLoop < 500)\<close>; the result holds
  the final value of \<^verbatim>\<open>safetyLoop\<close>.\<close>

function dayLoop :: "Env \<Rightarrow> DateStr \<Rightarrow> nat \<Rightarrow> State \<Rightarrow> nat \<times> State" where
  "dayLoop e dateStr safetyLoop st =
     (if minutesAvailable st > 0 \<and> safetyLoop < 500 then
        (case loopBody e dateStr st of
           (Break, st') \<Rightarrow> (safetyLoop + 1, st')
         | (Continue, st') \<Rightarrow> dayLoop e dateStr (safetyLoop + 1) st')
      else (safetyLoop, st))"
  by pat_completeness auto
termination
  by (relation "measure (\<lambda>(e, dateStr, safetyLoop, st). 500 - safetyLoop)") auto

type_synonym Schedule = "DateStr \<rightharpoonup> ScheduledItem list"

definition routineMinutes :: "Routine \<Rightarrow> DateStr \<Rightarrow> int" where
  \<comment> \<open>\<^verbatim>\<open>routine.days[dayName] || 0\<close>\<close>
  "routineMinutes r dateStr = (case map_of (days r) (getDayName dateStr) of None \<Rightarrow> 0 | Some v \<Rightarrow> v)"

definition startOfDay :: "State \<Rightarrow> int \<Rightarrow> State" where
  "startOfDay st m = st\<lparr>minutesAvailable := m, itemsProcessedToday := 0, dayItems := []\<rparr>"

text \<open>The body of the \<^verbatim>\<open>for\<close> over \<open>dayOffset\<close> (lines 748--895).\<close>

definition processDay :: "Env \<Rightarrow> int \<Rightarrow> DateStr \<Rightarrow> nat \<Rightarrow> State \<times> Schedule \<Rightarrow> State \<times> Schedule" where
  "processDay e tzOffset startDate dayOffset ws =
     (let dateStr = dateStrOf tzOffset startDate dayOffset;
          m = routineMinutes (routine e) dateStr
      in
      if m = 0 then ws
      else
        (case dayLoop e dateStr 0 (startOfDay (fst ws) m) of
           (n, st) \<Rightarrow>
             (st, if dayItems st \<noteq> [] then (snd ws)(dateStr \<mapsto> dayItems st) else snd ws)))"

definition initialState :: "Env \<Rightarrow> State" where
  "initialState e =
     \<lparr>currentCycleIndex =
        (if theCycleSystem (plan e) = continuo
         then skipExhausted e (initialPointers (plan e)) 0 else 0),
      currentItemIndex = 0,
      disciplinePointers = initialPointers (plan e),
      minutesAvailable = 0, itemsProcessedToday = 0, dayItems = []\<rparr>"

definition runDays :: "Env \<Rightarrow> int \<Rightarrow> DateStr \<Rightarrow> nat \<Rightarrow> State \<times> Schedule" where
  \<comment> \<open>the state of the run after the first \<open>n\<close> iterations of the \<^verbatim>\<open>for\<close>\<close>
  "runDays e tzOffset startDate n =
     fold (processDay e tzOffset startDate) [0..<n] (initialState e, Map.empty)"

definition mkEnv ::
  "(Goal \<Rightarrow> UserLevel \<Rightarrow> int) \<Rightarrow> StudyPlan \<Rightarrow> Routine \<Rightarrow> string list \<Rightarrow> UserLevel \<Rightarrow>
   Simulado list \<Rightarrow> SimuladoAttempt list \<Rightarrow> Env" where
  "mkEnv calc pl r cg lvl sims atts =
     \<lparr>plan = pl, routine = r, completedGoals = cg, userLevel = lvl,
      allSimulados = sims, userAttempts = atts, calculateGoalDuration = calc\<rparr>"

definition hasAvailability :: "Routine \<Rightarrow> bool" where
  "hasAvailability r = list_ex (\<lambda>v. v > 0) (map snd (days r))"

definition generateSchedule ::
  "(Goal \<Rightarrow> UserLevel \<Rightarrow> int) \<Rightarrow> int \<Rightarrow> StudyPlan \<Rightarrow> Routine \<Rightarrow> DateStr \<Rightarrow> string list \<Rightarrow>
   UserLevel \<Rightarrow> bool \<Rightarrow> Simulado list \<Rightarrow> SimuladoAttempt list \<Rightarrow> Schedule" where
  "generateSchedule calc tzOffset pl r startDateStr cg lvl isPaused sims atts =
     (if isPaused then Map.empty
      else if cycles pl = [] then Map.empty
      else if \<not> hasAvailability r then Map.empty
      else snd (runDays (mkEnv calc pl r cg lvl sims atts) tzOffset startDateStr MAX_DAYS))"



subsection \<open>The run as a chain of elementary steps\<close>

text \<open>
  The effect of the nested loops on the state is described by two relations.
  \<open>slotStep\<close> is one iteration of the inner \<^verbatim>\<open>while\<close> that does not leave it: a completed
  goal is skipped, or a goal is placed.  \<open>slotRun\<close> is a whole discipline visit: some such
  steps, possibly ended by the \<^verbatim>\<open>minutesAvailable = 0; break\<close> of line 883.
  \<open>iter\<close> collects what one iteration of the day's \<^verbatim>\<open>while\<close> can do: move the two
  cursors, place an exam, give the day up in front of an exam, or visit a discipline.
\<close>

inductive slotStep ::
  "Env \<Rightarrow> DateStr \<Rightarrow> Cycle \<Rightarrow> string \<Rightarrow> QueuedGoal list \<Rightarrow> State \<Rightarrow> State \<Rightarrow> bool"
  for e dateStr cycle did queue where
  skip: "disciplinePointers st did = Some p \<Longrightarrow> p < length queue \<Longrightarrow>
         goal_id (goal (queue ! p)) \<in> set (completedGoals e) \<Longrightarrow>
         slotStep e dateStr cycle did queue st
           (st\<lparr>disciplinePointers := (disciplinePointers st)(did \<mapsto> p + 1)\<rparr>)"
| place: "disciplinePointers st did = Some p \<Longrightarrow> p < length queue \<Longrightarrow>
         goal_id (goal (queue ! p)) \<notin> set (completedGoals e) \<Longrightarrow>
         minutesAvailable st \<ge> goalDuration e (goal (queue ! p)) \<or> itemsProcessedToday st = 0 \<Longrightarrow>
         slotStep e dateStr cycle did queue st
           (st\<lparr>dayItems := dayItems st @
                  [goalItem dateStr cycle did (queue ! p) (goalDuration e (goal (queue ! p)))],
               minutesAvailable := minutesAvailable st - goalDuration e (goal (queue ! p)),
               itemsProcessedToday := itemsProcessedToday st + 1,
               disciplinePointers := (disciplinePointers st)(did \<mapsto> p + 1)\<rparr>)"

definition slotRun ::
  "Env \<Rightarrow> DateStr \<Rightarrow> Cycle \<Rightarrow> string \<Rightarrow> QueuedGoal list \<Rightarrow> State \<Rightarrow> State \<Rightarrow> bool" where
  "slotRun e dateStr cycle did queue st st' \<longleftrightarrow>
     (\<exists>st1. (slotStep e dateStr cycle did queue)\<^sup>*\<^sup>* st st1 \<and>
        (st' = st1 \<or> (itemsProcessedToday st1 \<noteq> 0 \<and> st' = st1\<lparr>minutesAvailable := 0\<rparr>)))"

inductive iter :: "Env \<Rightarrow> DateStr \<Rightarrow> State \<Rightarrow> State \<Rightarrow> bool" for e dateStr where
  nav: "(theCycleSystem (plan e) = continuo \<longrightarrow>
           c = currentCycleIndex st \<or>
           (c = currentCycleIndex st + 1 \<and>
            isCycleExhausted e (disciplinePointers st) (currentCycleIndex st))) \<Longrightarrow>
        iter e dateStr st (st\<lparr>currentCycleIndex := c, currentItemIndex := i\<rparr>)"
| exam: "minutesAvailable st > 0 \<Longrightarrow>
         currentCycleIndex st < length (cycles (plan e)) \<Longrightarrow>
         ci \<in> set (expandCycleItems (cycles (plan e) ! currentCycleIndex st) (plan e)) \<Longrightarrow>
         simuladoId ci = Some sid \<Longrightarrow>
         \<not> isSimuladoCompleted sid (userAttempts e) \<Longrightarrow>
         find (\<lambda>s. simulado_id s = sid) (allSimulados e) = Some simulado \<Longrightarrow>
         itemsProcessedToday st = 0 \<or> minutesAvailable st > 60 \<Longrightarrow>
         iter e dateStr st
           (st\<lparr>dayItems := dayItems st @ [simuladoItem dateStr simulado],
               minutesAvailable := 0,
               itemsProcessedToday := itemsProcessedToday st + 1,
               currentItemIndex := currentItemIndex st + 1\<rparr>)"
| postpone: "minutesAvailable st > 0 \<Longrightarrow> itemsProcessedToday st \<noteq> 0 \<Longrightarrow>
          iter e dateStr st (st\<lparr>minutesAvailable := 0\<rparr>)"
| slot: "minutesAvailable st > 0 \<Longrightarrow>
         currentCycleIndex st < length (cycles (plan e)) \<Longrightarrow>
         ci \<in> set (expandCycleItems (cycles (plan e) ! currentCycleIndex st) (plan e)) \<Longrightarrow>
         disciplineId ci = Some did \<Longrightarrow>
         disciplineQueues (plan e) did = Some queue \<Longrightarrow>
         slotRun e dateStr (cycles (plan e) ! currentCycleIndex st) did queue st st' \<Longrightarrow>
         iter e dateStr st st'"

subsection \<open>Properties of scheduled items and of a day's list\<close>

definition isSimuladoItem :: "ScheduledItem \<Rightarrow> bool" where
  \<comment> \<open>an exam item: the branch of lines 808--820 is the only one that sets \<^verbatim>\<open>simuladoData\<close>\<close>
  "isSimuladoItem it \<longleftrightarrow> simuladoData it \<noteq> None"

definition itemOK :: "Env \<Rightarrow> DateStr \<Rightarrow> ScheduledItem \<Rightarrow> bool" where
  "itemOK e d it \<longleftrightarrow>
     (\<exists>c did qg. it = goalItem d c did qg (goalDuration e (goal qg)) \<and>
                 goal_id (goal qg) \<notin> set (completedGoals e))
     \<or> (\<exists>sim. it = simuladoItem d sim \<and> sim \<in> set (allSimulados e) \<and>
               \<not> isSimuladoCompleted (simulado_id sim) (userAttempts e))"

definition dayShape :: "int \<Rightarrow> State \<Rightarrow> bool" where
  \<comment> \<open>\<open>m0\<close> is the day's budget: either no exam has been placed and the remaining minutes
      are the budget minus the durations placed (or the day was given up), or the list
      ends with the only exam and the day is over\<close>
  "dayShape m0 s \<longleftrightarrow>
     itemsProcessedToday s = length (dayItems s) \<and>
     ((\<forall>x\<in>set (dayItems s). \<not> isSimuladoItem x) \<and>
        (minutesAvailable s = m0 - sum_list (map duration (dayItems s))
         \<or> (minutesAvailable s = 0 \<and> dayItems s \<noteq> []))
      \<or> (\<exists>pre x. dayItems s = pre @ [x] \<and> isSimuladoItem x \<and>
            (\<forall>y\<in>set pre. \<not> isSimuladoItem y) \<and> minutesAvailable s = 0 \<and>
            (pre = [] \<or> m0 - sum_list (map duration pre) > 60)))"

definition slotShape :: "int \<Rightarrow> State \<Rightarrow> bool" where
  "slotShape m0 s \<longleftrightarrow>
     itemsProcessedToday s = length (dayItems s) \<and>
     (\<forall>x\<in>set (dayItems s). \<not> isSimuladoItem x) \<and>
     minutesAvailable s = m0 - sum_list (map duration (dayItems s))"

definition dayInv :: "Env \<Rightarrow> DateStr \<Rightarrow> int \<Rightarrow> State \<Rightarrow> bool" where
  "dayInv e d m0 s \<longleftrightarrow> (\<forall>it\<in>set (dayItems s). itemOK e d it) \<and> dayShape m0 s"

text \<open>
  Identifiers are well formed when no cycle, discipline or exam identifier contains the
  separator of the \<^verbatim>\<open>uniqueId\<close> template, and the goals of one discipline have pairwise
  different identifiers.
\<close>

definition underscoreFree :: "string \<Rightarrow> bool" where
  "underscoreFree s \<longleftrightarrow> CHR ''_'' \<notin> set s"

definition wellFormedIds :: "StudyPlan \<Rightarrow> Simulado list \<Rightarrow> bool" where
  "wellFormedIds pl sims \<longleftrightarrow>
     (\<forall>c\<in>set (cycles pl). underscoreFree (cycle_id c)) \<and>
     (\<forall>d\<in>set (disciplines pl). underscoreFree (discipline_id d) \<and>
        distinct (map goal_id (concat (map goals (subjects d))))) \<and>
     (\<forall>x\<in>set sims. underscoreFree (simulado_id x))"

definition uniqueDay :: "Env \<Rightarrow> DateStr \<Rightarrow> State \<Rightarrow> bool" where
  "uniqueDay e d s \<longleftrightarrow>
     distinct (map uniqueId (dayItems s)) \<and>
     (\<forall>it\<in>set (dayItems s).
        (isSimuladoItem it \<longrightarrow>
           (\<exists>sim\<in>set (allSimulados e). uniqueId it = (d, ''SIM_'' @ simulado_id sim))) \<and>
        (\<not> isSimuladoItem it \<longrightarrow>
           (\<exists>c\<in>set (cycles (plan e)). \<exists>did q p i.
                disciplineQueues (plan e) did = Some q \<and> disciplinePointers s did = Some p \<and>
                i < p \<and> i < length q \<and>
                uniqueId it = (d, cycle_id c @ ''_'' @ did @ ''_'' @ goal_id (goal (q ! i))))))"






subsection \<open>Example inputs\<close>

text \<open>Day 19723 is Monday, 2024-01-01.  A time-zone offset of 180 minutes is UTC-3
  (America/Sao\_Paulo); an offset of -60 minutes is UTC+1.\<close>

definition mat_goal1 :: Goal where
  "mat_goal1 = \<lparr>goal_id = ''g1'', goal_type = ''AULA'', goal_title = ''Aula 1'', goal_order = 0\<rparr>"

definition mat_goal2 :: Goal where
  "mat_goal2 = \<lparr>goal_id = ''g2'', goal_type = ''AULA'', goal_title = ''Aula 2'', goal_order = 1\<rparr>"

definition mat_goal3 :: Goal where
  "mat_goal3 = \<lparr>goal_id = ''g3'', goal_type = ''AULA'', goal_title = ''Aula 3'', goal_order = 2\<rparr>"

definition mat_item :: CycleItem where
  "mat_item = \<lparr>folderId = None, disciplineId = Some ''mat'', simuladoId = None, subjectsCount = 1\<rparr>"

definition mat_cycle :: Cycle where
  "mat_cycle = \<lparr>cycle_id = ''c1'', items = [mat_item]\<rparr>"

definition mat_plan :: StudyPlan where
  "mat_plan =
     \<lparr>disciplines =
        [\<lparr>discipline_id = ''mat'', discipline_name = ''Matematica'',
          discipline_folderId = None, discipline_order = 0,
          subjects = [\<lparr>subject_name = ''Algebra'', subject_order = 0,
                       goals = [mat_goal1, mat_goal2, mat_goal3]\<rparr>]\<rparr>],
      cycles = [mat_cycle],
      cycleSystem = Some continuo\<rparr>"

definition mat_queued :: "Goal \<Rightarrow> QueuedGoal" where
  "mat_queued g = \<lparr>goal = g, x_subjectName = ''Algebra'', x_disciplineName = ''Matematica''\<rparr>"

definition monday_routine :: "int \<Rightarrow> Routine" where
  "monday_routine m = \<lparr>days = [(''segunda'', m)]\<rparr>"

definition sunday_routine :: "int \<Rightarrow> Routine" where
  "sunday_routine m = \<lparr>days = [(''domingo'', m)]\<rparr>"


definition flat_calc :: "int \<Rightarrow> Goal \<Rightarrow> UserLevel \<Rightarrow> int" where
  "flat_calc m g lvl = m"

text \<open>A plan whose single cycle visits the discipline and then holds an exam; the first
  goal is a lesson, the second is not.\<close>

definition quiz_goal :: Goal where
  "quiz_goal = \<lparr>goal_id = ''g2'', goal_type = ''QUESTOES'', goal_title = ''Lista 1'', goal_order = 1\<rparr>"

definition exam_sim :: Simulado where
  "exam_sim = \<lparr>simulado_id = ''s1'', simulado_title = ''Geral'', totalQuestions = 10\<rparr>"

definition exam_item :: CycleItem where
  "exam_item = \<lparr>folderId = None, disciplineId = None, simuladoId = Some ''s1'', subjectsCount = 0\<rparr>"

definition exam_cycle :: Cycle where
  "exam_cycle = \<lparr>cycle_id = ''c1'', items = [mat_item, exam_item]\<rparr>"

definition exam_plan :: StudyPlan where
  "exam_plan =
     \<lparr>disciplines =
        [\<lparr>discipline_id = ''mat'', discipline_name = ''Matematica'',
          discipline_folderId = None, discipline_order = 0,
          subjects = [\<lparr>subject_name = ''Algebra'', subject_order = 0,
                       goals = [mat_goal1, quiz_goal]\<rparr>]\<rparr>],
      cycles = [exam_cycle],
      cycleSystem = Some continuo\<rparr>"

text \<open>A plan whose only cycle item is an exam that the catalogue does not hold.\<close>

definition orphan_exam_plan :: StudyPlan where
  "orphan_exam_plan =
     \<lparr>disciplines = [], cycles = [\<lparr>cycle_id = ''c1'', items = [exam_item]\<rparr>],
      cycleSystem = Some continuo\<rparr>"








text \<open>Two cycles, continuous mode: the only goal of the first cycle's discipline is meant
  to be completed (\<^verbatim>\<open>p1\<close>), the second cycle holds the discipline of \<open>mat_plan\<close>.\<close>

definition por_goal :: Goal where
  "por_goal = \<lparr>goal_id = ''p1'', goal_type = ''AULA'', goal_title = ''Crase'', goal_order = 0\<rparr>"

definition por_item :: CycleItem where
  "por_item = \<lparr>folderId = None, disciplineId = Some ''por'', simuladoId = None, subjectsCount = 1\<rparr>"

definition por_cycle :: Cycle where
  "por_cycle = \<lparr>cycle_id = ''c0'', items = [por_item]\<rparr>"

definition finished_plan :: StudyPlan where
  "finished_plan =
     \<lparr>disciplines =
        \<lparr>discipline_id = ''por'', discipline_name = ''Portugues'',
          discipline_folderId = None, discipline_order = 0,
          subjects = [\<lparr>subject_name = ''Gramatica'', subject_order = 0, goals = [por_goal]\<rparr>]\<rparr>
        # disciplines mat_plan,
      cycles = [por_cycle, mat_cycle], cycleSystem = Some continuo\<rparr>"




text \<open>Plans whose identifiers collide in the \<^verbatim>\<open>uniqueId\<close> template: two goals with the
  same identifier in one discipline; an underscore in a discipline identifier, in a cycle
  identifier, in an exam identifier.\<close>

definition lone_discipline :: "string \<Rightarrow> string \<Rightarrow> Discipline" where
  "lone_discipline did gid =
     \<lparr>discipline_id = did, discipline_name = ''Disciplina'', discipline_folderId = None,
      discipline_order = 0,
      subjects = [\<lparr>subject_name = ''Assunto'', subject_order = 0,
                   goals = [\<lparr>goal_id = gid, goal_type = ''AULA'', goal_title = ''Aula'',
                             goal_order = 0\<rparr>]\<rparr>]\<rparr>"

definition visit :: "string \<Rightarrow> CycleItem" where
  "visit did = \<lparr>folderId = None, disciplineId = Some did, simuladoId = None, subjectsCount = 1\<rparr>"

definition twin_plan :: StudyPlan where
  "twin_plan =
     \<lparr>disciplines =
        [\<lparr>discipline_id = ''mat'', discipline_name = ''Matematica'',
          discipline_folderId = None, discipline_order = 0,
          subjects = [\<lparr>subject_name = ''Algebra'', subject_order = 0,
                       goals = [mat_goal1, mat_goal1\<lparr>goal_title := ''Aula 1 (copia)'', goal_order := 1\<rparr>]\<rparr>]\<rparr>],
      cycles = [mat_cycle], cycleSystem = Some continuo\<rparr>"

definition split_discipline_plan :: StudyPlan where
  "split_discipline_plan =
     \<lparr>disciplines = [lone_discipline ''a'' ''b_g'', lone_discipline ''a_b'' ''g''],
      cycles = [\<lparr>cycle_id = ''c1'', items = [visit ''a'', visit ''a_b'']\<rparr>],
      cycleSystem = Some continuo\<rparr>"

definition split_cycle_plan :: StudyPlan where
  "split_cycle_plan =
     \<lparr>disciplines = [lone_discipline ''a'' ''g'', lone_discipline ''1'' ''a_g''],
      cycles = [\<lparr>cycle_id = ''c_1'', items = [visit ''a'']\<rparr>, \<lparr>cycle_id = ''c'', items = [visit ''1'']\<rparr>],
      cycleSystem = Some continuo\<rparr>"

definition split_exam :: Simulado where
  "split_exam = \<lparr>simulado_id = ''a_g'', simulado_title = ''Geral'', totalQuestions = 10\<rparr>"

definition split_exam_plan :: StudyPlan where
  "split_exam_plan =
     \<lparr>disciplines = [lone_discipline ''a'' ''g''],
      cycles = [\<lparr>cycle_id = ''SIM'',
                 items = [visit ''a'',
                          \<lparr>folderId = None, disciplineId = None, simuladoId = Some ''a_g'',
                           subjectsCount = 0\<rparr>]\<rparr>],
      cycleSystem = Some continuo\<rparr>"

section \<open>Basic facts about the loops\<close>

declare slotLoop.simps [simp del] dayLoop.simps [simp del] skipExhausted.simps [simp del]

lemma slotRun_refl: "slotRun e d c did q st st"
  unfolding slotRun_def by blast

lemma slotRun_zero: "itemsProcessedToday st \<noteq> 0 \<Longrightarrow> slotRun e d c did q st (st\<lparr>minutesAvailable := 0\<rparr>)"
  unfolding slotRun_def by blast

lemma slotRun_step: "slotStep e d c did q st st1 \<Longrightarrow> slotRun e d c did q st1 st' \<Longrightarrow> slotRun e d c did q st st'"
  unfolding slotRun_def by (blast intro: converse_rtranclp_into_rtranclp)

lemma slotLoop_exit:
  "\<not> (int (scheduledInThisSlot sl) < sc \<and> pointer sl < length queue) \<Longrightarrow>
   slotLoop e dateStr cycle did sc queue sl st = (sl, st)"
  by (subst slotLoop.simps) auto

lemma slotLoop_skip:
  "int (scheduledInThisSlot sl) < sc \<Longrightarrow> pointer sl < length queue \<Longrightarrow>
   goal_id (goal (queue ! pointer sl)) \<in> set (completedGoals e) \<Longrightarrow>
   slotLoop e dateStr cycle did sc queue sl st =
   slotLoop e dateStr cycle did sc queue (sl\<lparr>pointer := pointer sl + 1\<rparr>)
     (st\<lparr>disciplinePointers := (disciplinePointers st)(did \<mapsto> pointer sl + 1)\<rparr>)"
  by (subst slotLoop.simps) (simp add: Let_def)

lemma slotLoop_place:
  "int (scheduledInThisSlot sl) < sc \<Longrightarrow> pointer sl < length queue \<Longrightarrow>
   goal_id (goal (queue ! pointer sl)) \<notin> set (completedGoals e) \<Longrightarrow>
   minutesAvailable st \<ge> goalDuration e (goal (queue ! pointer sl)) \<or> itemsProcessedToday st = 0 \<Longrightarrow>
   slotLoop e dateStr cycle did sc queue sl st =
   slotLoop e dateStr cycle did sc queue
     \<lparr>scheduledInThisSlot =
        (if \<not> (lastSubName sl \<noteq> [] \<and> x_subjectName (queue ! pointer sl) = lastSubName sl)
         then scheduledInThisSlot sl + 1 else scheduledInThisSlot sl),
      lastSubName =
        (if \<not> (lastSubName sl \<noteq> [] \<and> x_subjectName (queue ! pointer sl) = lastSubName sl)
         then x_subjectName (queue ! pointer sl) else lastSubName sl),
      processedSomething = True,
      pointer = pointer sl + 1\<rparr>
     (st\<lparr>dayItems := dayItems st @
            [goalItem dateStr cycle did (queue ! pointer sl) (goalDuration e (goal (queue ! pointer sl)))],
         minutesAvailable := minutesAvailable st - goalDuration e (goal (queue ! pointer sl)),
         itemsProcessedToday := itemsProcessedToday st + 1,
         disciplinePointers := (disciplinePointers st)(did \<mapsto> pointer sl + 1)\<rparr>)"
  by (subst slotLoop.simps) (simp add: Let_def)

lemma slotLoop_postpone:
  "int (scheduledInThisSlot sl) < sc \<Longrightarrow> pointer sl < length queue \<Longrightarrow>
   goal_id (goal (queue ! pointer sl)) \<notin> set (completedGoals e) \<Longrightarrow>
   \<not> (minutesAvailable st \<ge> goalDuration e (goal (queue ! pointer sl)) \<or> itemsProcessedToday st = 0) \<Longrightarrow>
   slotLoop e dateStr cycle did sc queue sl st = (sl, st\<lparr>minutesAvailable := 0\<rparr>)"
  by (subst slotLoop.simps) (auto simp add: Let_def)

lemma slotLoop_run:
  "disciplinePointers st did = Some (pointer sl) \<Longrightarrow>
   slotLoop e d c did sc q sl st = (sl', st') \<Longrightarrow>
   slotRun e d c did q st st'"
proof (induction e d c did sc q sl st rule: slotLoop.induct)
  case (1 e dateStr cycle did sc queue sl st)
  show ?case
  proof (cases "int (scheduledInThisSlot sl) < sc \<and> pointer sl < length queue")
    case False
    with "1.prems" show ?thesis
      by (simp add: slotLoop_exit slotRun_refl)
  next
    case guard: True
    define qg where "qg = queue ! pointer sl"
    show ?thesis
    proof (cases "goal_id (goal qg) \<in> set (completedGoals e)")
      case True
      let ?st1 = "st\<lparr>disciplinePointers := (disciplinePointers st)(did \<mapsto> pointer sl + 1)\<rparr>"
      have step: "slotStep e dateStr cycle did queue st ?st1"
        using "1.prems"(1) guard True unfolding qg_def by (intro slotStep.skip) auto
      have eq: "slotLoop e dateStr cycle did sc queue (sl\<lparr>pointer := pointer sl + 1\<rparr>) ?st1 = (sl', st')"
        using "1.prems"(2) guard True slotLoop_skip [of sl sc queue e dateStr cycle did st]
        unfolding qg_def by simp
      have "slotRun e dateStr cycle did queue ?st1 st'"
        using "1.IH"(1) [OF guard qg_def True _ eq] by simp
      with step show ?thesis by (rule slotRun_step)
    next
      case notdone: False
      define dur where "dur = goalDuration e (goal qg)"
      define isSameSub where "isSameSub = (lastSubName sl \<noteq> [] \<and> x_subjectName qg = lastSubName sl)"
      show ?thesis
      proof (cases "minutesAvailable st \<ge> dur \<or> itemsProcessedToday st = 0")
        case True
        let ?sl1 = "\<lparr>scheduledInThisSlot =
                  (if \<not> isSameSub then scheduledInThisSlot sl + 1 else scheduledInThisSlot sl),
               lastSubName = (if \<not> isSameSub then x_subjectName qg else lastSubName sl),
               processedSomething = True,
               pointer = pointer sl + 1\<rparr>"
        let ?st1 = "st\<lparr>dayItems := dayItems st @ [goalItem dateStr cycle did qg dur],
                  minutesAvailable := minutesAvailable st - dur,
                  itemsProcessedToday := itemsProcessedToday st + 1,
                  disciplinePointers := (disciplinePointers st)(did \<mapsto> pointer sl + 1)\<rparr>"
        have step: "slotStep e dateStr cycle did queue st ?st1"
          using "1.prems"(1) guard notdone True unfolding qg_def dur_def
          by (intro slotStep.place) auto
        have "slotLoop e dateStr cycle did sc queue sl st = slotLoop e dateStr cycle did sc queue ?sl1 ?st1"
          unfolding qg_def dur_def isSameSub_def
          using guard notdone True unfolding qg_def dur_def
          by (intro slotLoop_place) auto
        with "1.prems"(2) have eq: "slotLoop e dateStr cycle did sc queue ?sl1 ?st1 = (sl', st')"
          by simp
        have "slotRun e dateStr cycle did queue ?st1 st'"
          using "1.IH"(2) [OF guard qg_def notdone dur_def isSameSub_def True _ eq] by simp
        with step show ?thesis by (rule slotRun_step)
      next
        case False
        then have "st' = st\<lparr>minutesAvailable := 0\<rparr>" "itemsProcessedToday st \<noteq> 0"
          using "1.prems"(2) guard notdone slotLoop_postpone [of sl sc queue e st dateStr cycle did]
          unfolding qg_def dur_def by auto
        then show ?thesis by (simp add: slotRun_zero)
      qed
    qed
  qed
qed


lemma iter_idx: "iter e d st (st\<lparr>currentItemIndex := i\<rparr>)"
  using iter.nav [where e = e and st = st and c = "currentCycleIndex st" and dateStr = d and i = i]
  by simp

lemma iter_next_cycle:
  "(theCycleSystem (plan e) = continuo \<longrightarrow>
      isCycleExhausted e (disciplinePointers st) (currentCycleIndex st)) \<Longrightarrow>
   iter e d st (st\<lparr>currentCycleIndex := currentCycleIndex st + 1, currentItemIndex := 0\<rparr>)"
  by (rule iter.nav) simp

lemma iter_wrap:
  "theCycleSystem (plan e) = rotativo \<Longrightarrow> iter e d st (st\<lparr>currentCycleIndex := 0\<rparr>)"
  using iter.nav [where e = e and st = st and c = 0 and dateStr = d and i = "currentItemIndex st"]
  by simp

lemma chain_idx:
  "(iter e d)\<^sup>*\<^sup>* st0 st \<Longrightarrow> (iter e d)\<^sup>*\<^sup>* st0 (st\<lparr>currentItemIndex := i\<rparr>)"
  using iter_idx [of e d st i] by (metis rtranclp.rtrancl_into_rtrancl)

lemma loopBody_iter:
  assumes body: "loopBody e d st0 = (ctl, st')" and pos: "minutesAvailable st0 > 0"
  shows "(iter e d)\<^sup>*\<^sup>* st0 st'"
proof (cases "currentCycleIndex st0 \<ge> length (cycles (plan e)) \<and> theCycleSystem (plan e) \<noteq> rotativo")
  case True
  with body have "st' = st0" by (simp add: loopBody_def)
  then show ?thesis by simp
next
  case nobreak: False
  define st where "st = (if currentCycleIndex st0 \<ge> length (cycles (plan e))
                  then st0\<lparr>currentCycleIndex := 0\<rparr> else st0)"
  have wrap: "(iter e d)\<^sup>*\<^sup>* st0 st"
    using nobreak unfolding st_def by (auto intro: iter_wrap)
  have m: "minutesAvailable st > 0" using pos by (simp add: st_def)
  show ?thesis
  proof (cases "currentCycleIndex st \<ge> length (cycles (plan e))")
    case True
    with body nobreak have "st' = st" by (simp add: loopBody_def st_def Let_def)
    with wrap show ?thesis by simp
  next
    case inrange: False
    define cycle where "cycle = cycles (plan e) ! currentCycleIndex st"
    define activeItems where "activeItems = expandCycleItems cycle (plan e)"
    show ?thesis
    proof (cases "currentItemIndex st \<ge> length activeItems")
      case True
      with body nobreak inrange have
        "(st' = st\<lparr>currentCycleIndex := currentCycleIndex st + 1, currentItemIndex := 0\<rparr> \<and>
          (theCycleSystem (plan e) = continuo \<longrightarrow>
             isCycleExhausted e (disciplinePointers st) (currentCycleIndex st)))
         \<or> st' = st\<lparr>currentItemIndex := 0\<rparr>"
        unfolding loopBody_def st_def [symmetric] Let_def cycle_def [symmetric] activeItems_def [symmetric]
        by (auto split: if_splits)
      then have "iter e d st st'" using iter_idx [of e d st 0] iter_next_cycle [where e = e and st = st and d = d] by auto
      with wrap show ?thesis by (rule rtranclp.rtrancl_into_rtrancl)
    next
      case hasItem: False
      define cycleItem where "cycleItem = activeItems ! currentItemIndex st"
      have mem: "cycleItem \<in> set (expandCycleItems (cycles (plan e) ! currentCycleIndex st) (plan e))"
        using hasItem unfolding cycleItem_def activeItems_def cycle_def by simp
      have lt: "currentCycleIndex st < length (cycles (plan e))" using inrange by simp
      from body nobreak inrange hasItem have body':
        "(ctl, st') =
          (if truthy (simuladoId cycleItem) then
              (let sid = the (simuladoId cycleItem) in
               if isSimuladoCompleted sid (userAttempts e)
               then (Continue, st\<lparr>currentItemIndex := currentItemIndex st + 1\<rparr>)
               else
                 (case find (\<lambda>s. simulado_id s = sid) (allSimulados e) of
                    Some simulado \<Rightarrow>
                      if itemsProcessedToday st = 0 \<or> minutesAvailable st > 60 then
                        (Continue,
                         st\<lparr>dayItems := dayItems st @ [simuladoItem d simulado],
                            minutesAvailable := 0,
                            itemsProcessedToday := itemsProcessedToday st + 1,
                            currentItemIndex := currentItemIndex st + 1\<rparr>)
                      else (Break, st\<lparr>minutesAvailable := 0\<rparr>)
                  | None \<Rightarrow> (Continue, st\<lparr>currentItemIndex := currentItemIndex st + 1\<rparr>)))
            else if truthy (disciplineId cycleItem) then
              (let did = the (disciplineId cycleItem) in
               case disciplineQueues (plan e) did of
                 None \<Rightarrow> (Continue, st\<lparr>currentItemIndex := currentItemIndex st + 1\<rparr>)
               | Some queue \<Rightarrow>
                   (case disciplinePointers st did of
                      None \<Rightarrow>
                        (Continue,
                         if 0 \<ge> subjectsCount cycleItem
                         then st\<lparr>currentItemIndex := currentItemIndex st + 1\<rparr> else st)
                    | Some ptr \<Rightarrow>
                        if ptr \<ge> length queue
                        then (Continue, st\<lparr>currentItemIndex := currentItemIndex st + 1\<rparr>)
                        else
                          (case slotLoop e d cycle did (subjectsCount cycleItem) queue
                                  \<lparr>scheduledInThisSlot = 0, lastSubName = [],
                                   processedSomething = False, pointer = ptr\<rparr> st of
                             (sl, st') \<Rightarrow>
                               if int (scheduledInThisSlot sl) \<ge> subjectsCount cycleItem
                                  \<or> pointer sl \<ge> length queue
                               then (Continue, st'\<lparr>currentItemIndex := currentItemIndex st' + 1\<rparr>)
                               else if \<not> processedSomething sl \<and> minutesAvailable st' \<le> 0
                               then (Break, st')
                               else (Continue, st'))))
            else (Continue, st))"
        unfolding loopBody_def st_def [symmetric] Let_def cycle_def [symmetric]
          activeItems_def [symmetric] cycleItem_def [symmetric]
        by (simp only: if_False)
      show ?thesis
      proof (cases "truthy (simuladoId cycleItem)")
        case True
        then obtain sid where sid: "simuladoId cycleItem = Some sid"
          by (cases "simuladoId cycleItem") auto
        show ?thesis
        proof (cases "isSimuladoCompleted sid (userAttempts e)")
          case True
          with body' \<open>truthy (simuladoId cycleItem)\<close> sid
          have "st' = st\<lparr>currentItemIndex := currentItemIndex st + 1\<rparr>" by simp
          with chain_idx [OF wrap] show ?thesis by simp
        next
          case notc: False
          show ?thesis
          proof (cases "find (\<lambda>s. simulado_id s = sid) (allSimulados e)")
            case None
            with body' \<open>truthy (simuladoId cycleItem)\<close> sid notc
            have "st' = st\<lparr>currentItemIndex := currentItemIndex st + 1\<rparr>" by simp
            with chain_idx [OF wrap] show ?thesis by simp
          next
            case (Some simulado)
            show ?thesis
            proof (cases "itemsProcessedToday st = 0 \<or> minutesAvailable st > 60")
              case True
              with body' \<open>truthy (simuladoId cycleItem)\<close> sid notc Some
              have "st' = st\<lparr>dayItems := dayItems st @ [simuladoItem d simulado],
                            minutesAvailable := 0,
                            itemsProcessedToday := itemsProcessedToday st + 1,
                            currentItemIndex := currentItemIndex st + 1\<rparr>" by auto
              moreover have "iter e d st (st\<lparr>dayItems := dayItems st @ [simuladoItem d simulado],
                            minutesAvailable := 0,
                            itemsProcessedToday := itemsProcessedToday st + 1,
                            currentItemIndex := currentItemIndex st + 1\<rparr>)"
                using m lt mem sid notc Some True by (rule iter.exam)
              ultimately show ?thesis using wrap by (metis rtranclp.rtrancl_into_rtrancl)
            next
              case False
              with body' \<open>truthy (simuladoId cycleItem)\<close> sid notc Some
              have "st' = st\<lparr>minutesAvailable := 0\<rparr>" by auto
              moreover have "iter e d st (st\<lparr>minutesAvailable := 0\<rparr>)"
                using m False by (intro iter.postpone) auto
              ultimately show ?thesis using wrap by (metis rtranclp.rtrancl_into_rtrancl)
            qed
          qed
        qed
      next
        case nosim: False
        show ?thesis
        proof (cases "truthy (disciplineId cycleItem)")
          case False
          with body' nosim have "st' = st" by simp
          with wrap show ?thesis by simp
        next
          case True
          then obtain did where did: "disciplineId cycleItem = Some did"
            by (cases "disciplineId cycleItem") auto
          show ?thesis
          proof (cases "disciplineQueues (plan e) did")
            case None
            with body' nosim True did
            have "st' = st\<lparr>currentItemIndex := currentItemIndex st + 1\<rparr>" by simp
            with chain_idx [OF wrap] show ?thesis by simp
          next
            case (Some queue)
            show ?thesis
            proof (cases "disciplinePointers st did")
              case None
              with body' nosim True did Some
              have "st' = st\<lparr>currentItemIndex := currentItemIndex st + 1\<rparr> \<or> st' = st"
                by (auto split: if_splits)
              with wrap chain_idx [OF wrap] show ?thesis by auto
            next
              case (Some ptr)
              note ptr = this
              show ?thesis
              proof (cases "ptr \<ge> length queue")
                case True
                with body' nosim \<open>truthy (disciplineId cycleItem)\<close> did \<open>disciplineQueues (plan e) did = Some queue\<close> ptr
                have "st' = st\<lparr>currentItemIndex := currentItemIndex st + 1\<rparr>" by simp
                with chain_idx [OF wrap] show ?thesis by simp
              next
                case False
                obtain sl st1 where sl: "slotLoop e d cycle did (subjectsCount cycleItem) queue
                                  \<lparr>scheduledInThisSlot = 0, lastSubName = [],
                                   processedSomething = False, pointer = ptr\<rparr> st = (sl, st1)"
                  by (cases "slotLoop e d cycle did (subjectsCount cycleItem) queue
                                  \<lparr>scheduledInThisSlot = 0, lastSubName = [],
                                   processedSomething = False, pointer = ptr\<rparr> st") auto
                have "slotRun e d cycle did queue st st1"
                  using slotLoop_run [OF _ sl] ptr by simp
                then have "iter e d st st1"
                  using m lt mem did \<open>disciplineQueues (plan e) did = Some queue\<close>
                  unfolding cycle_def by (intro iter.slot)
                moreover have "st' = st1\<lparr>currentItemIndex := currentItemIndex st1 + 1\<rparr> \<or> st' = st1"
                  using body' nosim \<open>truthy (disciplineId cycleItem)\<close> did
                    \<open>disciplineQueues (plan e) did = Some queue\<close> ptr False sl
                  by (auto split: if_splits)
                ultimately show ?thesis using wrap chain_idx [of e d st0 st1]
                  by (metis rtranclp.rtrancl_into_rtrancl)
              qed
            qed
          qed
        qed
      qed
    qed
  qed
qed

lemma dayLoop_iter:
  "dayLoop e d n st = (n', st') \<Longrightarrow> (iter e d)\<^sup>*\<^sup>* st st'"
proof (induction e d n st rule: dayLoop.induct)
  case (1 e dateStr safetyLoop st)
  show ?case
  proof (cases "minutesAvailable st > 0 \<and> safetyLoop < 500")
    case False
    with "1.prems" show ?thesis by (simp add: dayLoop.simps [of e dateStr safetyLoop st])
  next
    case True
    obtain ctl st1 where b: "loopBody e dateStr st = (ctl, st1)"
      by (cases "loopBody e dateStr st") auto
    have s1: "(iter e dateStr)\<^sup>*\<^sup>* st st1" using loopBody_iter [OF b] True by simp
    show ?thesis
    proof (cases ctl)
      case Break
      with "1.prems" True b have "st' = st1" by (simp add: dayLoop.simps [of e dateStr safetyLoop st])
      with s1 show ?thesis by simp
    next
      case Continue
      with "1.prems" True b have "dayLoop e dateStr (safetyLoop + 1) st1 = (n', st')"
        by (simp add: dayLoop.simps [of e dateStr safetyLoop st])
      from "1.IH" [OF True b [symmetric] Continue this] s1 show ?thesis by simp
    qed
  qed
qed


lemma dayLoop_invariant:
  assumes "I st" and "\<And>s s'. I s \<Longrightarrow> iter e d s s' \<Longrightarrow> I s'"
    and "dayLoop e d n st = (n', st')"
  shows "I st'"
proof -
  have "(iter e d)\<^sup>*\<^sup>* st st'" using assms(3) by (rule dayLoop_iter)
  then show ?thesis using assms(1,2) by (induction rule: rtranclp_induct) auto
qed

lemma dateStrOf_eq: "dateStrOf tz s k = s + int k + tz div 1440"
  by (simp add: dateStrOf_def)

lemma runDays_0: "runDays e tz s 0 = (initialState e, Map.empty)"
  by (simp add: runDays_def)

lemma runDays_Suc: "runDays e tz s (Suc n) = processDay e tz s n (runDays e tz s n)"
  by (simp add: runDays_def)

lemma processDay_cases:
  obtains (rest) "routineMinutes (routine e) (dateStrOf tz s k) = 0" "processDay e tz s k ws = ws"
  | (work) n st where "routineMinutes (routine e) (dateStrOf tz s k) \<noteq> 0"
      "dayLoop e (dateStrOf tz s k) 0
         (startOfDay (fst ws) (routineMinutes (routine e) (dateStrOf tz s k))) = (n, st)"
      "processDay e tz s k ws =
         (st, if dayItems st \<noteq> [] then (snd ws)(dateStrOf tz s k \<mapsto> dayItems st) else snd ws)"
proof (cases "routineMinutes (routine e) (dateStrOf tz s k) = 0")
  case True
  then show ?thesis using rest by (simp add: processDay_def)
next
  case False
  obtain n st where "dayLoop e (dateStrOf tz s k) 0
         (startOfDay (fst ws) (routineMinutes (routine e) (dateStrOf tz s k))) = (n, st)"
    by (cases "dayLoop e (dateStrOf tz s k) 0
         (startOfDay (fst ws) (routineMinutes (routine e) (dateStrOf tz s k)))") auto
  then show ?thesis using False work by (simp add: processDay_def Let_def)
qed

lemma ex_less_Suc: "\<exists>k<m. P k \<Longrightarrow> \<exists>k<Suc m. P k"
  by (meson less_SucI)

lemma runDays_invariant:
  assumes init: "W (initialState e)"
    and start: "\<And>k w. k < n \<Longrightarrow> W w \<Longrightarrow> routineMinutes (routine e) (dateStrOf tz s k) \<noteq> 0 \<Longrightarrow>
                  I k (startOfDay w (routineMinutes (routine e) (dateStrOf tz s k)))"
    and step: "\<And>k st st'. k < n \<Longrightarrow> I k st \<Longrightarrow> iter e (dateStrOf tz s k) st st' \<Longrightarrow> I k st'"
    and fin: "\<And>k st. k < n \<Longrightarrow> I k st \<Longrightarrow> W st"
    and le: "m \<le> n"
  shows "W (fst (runDays e tz s m)) \<and>
         (\<forall>d its. snd (runDays e tz s m) d = Some its \<longrightarrow>
            (\<exists>k<m. d = dateStrOf tz s k \<and> its \<noteq> [] \<and> routineMinutes (routine e) d \<noteq> 0 \<and>
               (\<exists>st. I k st \<and> dayItems st = its)))"
  using le
proof (induction m)
  case 0
  then show ?case using init by (simp add: runDays_0)
next
  case (Suc m)
  then have IH: "W (fst (runDays e tz s m))"
    "\<And>d its. snd (runDays e tz s m) d = Some its \<Longrightarrow>
       \<exists>k<m. d = dateStrOf tz s k \<and> its \<noteq> [] \<and> routineMinutes (routine e) d \<noteq> 0 \<and>
               (\<exists>st. I k st \<and> dayItems st = its)" and mn: "m < n"
    by auto
  show ?case
  proof (cases rule: processDay_cases [of e tz s m "runDays e tz s m"])
    case rest
    then have eq: "runDays e tz s (Suc m) = runDays e tz s m" by (simp add: runDays_Suc)
    show ?thesis unfolding eq using IH(1) ex_less_Suc [OF IH(2)] by blast
  next
    case (work n' st)
    have "I m (startOfDay (fst (runDays e tz s m)) (routineMinutes (routine e) (dateStrOf tz s m)))"
      using start [OF mn IH(1) work(1)] .
    then have Ist: "I m st"
      using step [OF mn] work(2) by (rule dayLoop_invariant)
    have W: "W st" using fin [OF mn Ist] .
    show ?thesis
    proof (intro conjI allI impI)
      show "W (fst (runDays e tz s (Suc m)))" using W work(3) by (simp add: runDays_Suc)
    next
      fix d its
      assume a: "snd (runDays e tz s (Suc m)) d = Some its"
      show "\<exists>k<Suc m. d = dateStrOf tz s k \<and> its \<noteq> [] \<and> routineMinutes (routine e) d \<noteq> 0 \<and>
               (\<exists>st. I k st \<and> dayItems st = its)"
      proof (cases "d = dateStrOf tz s m \<and> dayItems st \<noteq> []")
        case True
        with a work(3) have "its = dayItems st" by (simp add: runDays_Suc)
        with True Ist work(1) show ?thesis by (intro exI [of _ m]) auto
      next
        case False
        with a work(3) have "snd (runDays e tz s m) d = Some its"
          by (auto simp: runDays_Suc split: if_splits)
        from IH(2) [OF this] show ?thesis by (rule ex_less_Suc)
      qed
    qed
  qed
qed

lemma generateSchedule_invariant:
  assumes sched: "generateSchedule calc tz pl r s cg lvl isPaused sims atts d = Some its"
    and init: "W (initialState (mkEnv calc pl r cg lvl sims atts))"
    and start: "\<And>k w. k < MAX_DAYS \<Longrightarrow> W w \<Longrightarrow> routineMinutes r (dateStrOf tz s k) \<noteq> 0 \<Longrightarrow>
                  I k (startOfDay w (routineMinutes r (dateStrOf tz s k)))"
    and step: "\<And>k st st'. k < MAX_DAYS \<Longrightarrow> I k st \<Longrightarrow>
                  iter (mkEnv calc pl r cg lvl sims atts) (dateStrOf tz s k) st st' \<Longrightarrow> I k st'"
    and fin: "\<And>k st. k < MAX_DAYS \<Longrightarrow> I k st \<Longrightarrow> W st"
  shows "\<exists>k<MAX_DAYS. d = dateStrOf tz s k \<and> its \<noteq> [] \<and> routineMinutes r d \<noteq> 0 \<and>
               (\<exists>st. I k st \<and> dayItems st = its)"
proof -
  let ?e = "mkEnv calc pl r cg lvl sims atts"
  have r: "routine ?e = r" by (simp add: mkEnv_def)
  from sched have s: "snd (runDays ?e tz s MAX_DAYS) d = Some its"
    by (auto simp: generateSchedule_def split: if_splits)
  have "W (fst (runDays ?e tz s MAX_DAYS)) \<and>
         (\<forall>d its. snd (runDays ?e tz s MAX_DAYS) d = Some its \<longrightarrow>
            (\<exists>k<MAX_DAYS. d = dateStrOf tz s k \<and> its \<noteq> [] \<and> routineMinutes (routine ?e) d \<noteq> 0 \<and>
               (\<exists>st. I k st \<and> dayItems st = its)))"
    by (rule runDays_invariant [where W = W and I = I and n = MAX_DAYS])
       (use init start step fin in \<open>simp_all add: r\<close>)
  with s show ?thesis by (simp add: r)
qed


section \<open>Invariants of a day\<close>

lemma slotRun_invariant:
  assumes "slotRun e d c did q st st'" and "P st"
    and "\<And>s s'. P s \<Longrightarrow> slotStep e d c did q s s' \<Longrightarrow> P s'"
    and "\<And>s. P s \<Longrightarrow> itemsProcessedToday s \<noteq> 0 \<Longrightarrow> Q (s\<lparr>minutesAvailable := 0\<rparr>)"
    and "\<And>s. P s \<Longrightarrow> Q s"
  shows "Q st'"
proof -
  from assms(1) obtain st1 where
    steps: "(slotStep e d c did q)\<^sup>*\<^sup>* st st1"
    and fin: "st' = st1 \<or> (itemsProcessedToday st1 \<noteq> 0 \<and> st' = st1\<lparr>minutesAvailable := 0\<rparr>)"
    unfolding slotRun_def by blast
  from steps have "P st1" using assms(2,3) by (induction rule: rtranclp_induct) auto
  with fin show ?thesis using assms(4,5) by auto
qed

lemma isSimuladoItem_simps [simp]:
  "isSimuladoItem (simuladoItem d sim)" "\<not> isSimuladoItem (goalItem d c did qg dur)"
  by (simp_all add: isSimuladoItem_def simuladoItem_def goalItem_def)

lemma duration_goalItem [simp]: "duration (goalItem d c did qg dur) = dur"
  by (simp add: goalItem_def)

lemma itemOK_slotStep:
  "slotStep e d c did q s s' \<Longrightarrow> \<forall>it\<in>set (dayItems s). itemOK e d it \<Longrightarrow>
   \<forall>it\<in>set (dayItems s'). itemOK e d it"
  by (erule slotStep.cases) (auto simp: itemOK_def)

lemma itemOK_iter:
  assumes "iter e d s s'" and "\<forall>it\<in>set (dayItems s). itemOK e d it"
  shows "\<forall>it\<in>set (dayItems s'). itemOK e d it"
  using assms
proof (cases rule: iter.cases)
  case (nav c i)
  with assms(2) show ?thesis by simp
next
  case (exam ci sid simulado)
  from exam(7) have "simulado \<in> set (allSimulados e)" "simulado_id simulado = sid"
    by (auto simp: find_Some_iff in_set_conv_nth)
  with exam(6) have "itemOK e d (simuladoItem d simulado)"
    unfolding itemOK_def by blast
  with exam(1) assms(2) show ?thesis by simp
next
  case postpone
  with assms(2) show ?thesis by simp
next
  case (slot ci did queue)
  show ?thesis
    by (rule slotRun_invariant [OF slot(6), where P = "\<lambda>s. \<forall>it\<in>set (dayItems s). itemOK e d it"])
       (use assms(2) itemOK_slotStep in auto)
qed


lemma dayShape_start: "dayShape m (startOfDay w m)"
  by (simp add: dayShape_def startOfDay_def)

lemma slotShape_step:
  "slotStep e d c did q s s' \<Longrightarrow> slotShape m0 s \<Longrightarrow> slotShape m0 s'"
  by (erule slotStep.cases) (auto simp: slotShape_def)

lemma dayShape_iter:
  assumes "iter e d s s'" and "dayShape m0 s"
  shows "dayShape m0 s'"
  using assms
proof (cases rule: iter.cases)
  case (nav c i)
  with assms(2) show ?thesis by (simp add: dayShape_def)
next
  case (exam ci sid simulado)
  from assms(2) exam(2) have a: "itemsProcessedToday s = length (dayItems s)"
    "\<forall>x\<in>set (dayItems s). \<not> isSimuladoItem x"
    "minutesAvailable s = m0 - sum_list (map duration (dayItems s))"
    by (auto simp: dayShape_def)
  from exam(8) a have "dayItems s = [] \<or> m0 - sum_list (map duration (dayItems s)) > 60"
    by auto
  with a show ?thesis unfolding exam(1) dayShape_def by auto
next
  case postpone
  from assms(2) postpone(2,3) show ?thesis unfolding postpone(1) dayShape_def by auto
next
  case (slot ci did queue)
  from assms(2) slot(1) have start: "slotShape m0 s" by (auto simp: dayShape_def slotShape_def)
  show ?thesis
  proof (rule slotRun_invariant [OF slot(6), where P = "slotShape m0" and Q = "dayShape m0"])
    show "slotShape m0 s" by (rule start)
  next
    fix a b
    assume "slotShape m0 a" "slotStep e d (cycles (plan e) ! currentCycleIndex s) did queue a b"
    then show "slotShape m0 b" by (rule slotShape_step [rotated])
  next
    fix a
    assume "slotShape m0 a" "itemsProcessedToday a \<noteq> 0"
    then show "dayShape m0 (a\<lparr>minutesAvailable := 0\<rparr>)"
      by (auto simp: slotShape_def dayShape_def)
  next
    fix a
    assume "slotShape m0 a"
    then show "dayShape m0 a" by (auto simp: slotShape_def dayShape_def)
  qed
qed

lemma agenda_day:
  assumes "generateSchedule calc tz pl r s cg lvl isPaused sims atts d = Some its"
  shows "\<exists>k<MAX_DAYS. d = dateStrOf tz s k \<and> its \<noteq> [] \<and> routineMinutes r d \<noteq> 0 \<and>
           (\<exists>st. dayInv (mkEnv calc pl r cg lvl sims atts) d (routineMinutes r d) st \<and> dayItems st = its)"
proof -
  let ?e = "mkEnv calc pl r cg lvl sims atts"
  have "\<exists>k<MAX_DAYS. d = dateStrOf tz s k \<and> its \<noteq> [] \<and> routineMinutes r d \<noteq> 0 \<and>
           (\<exists>st. dayInv ?e (dateStrOf tz s k) (routineMinutes r (dateStrOf tz s k)) st \<and> dayItems st = its)"
  proof (rule generateSchedule_invariant [OF assms, where W = "\<lambda>_. True"
        and I = "\<lambda>k. dayInv ?e (dateStrOf tz s k) (routineMinutes r (dateStrOf tz s k))"])
    fix k w
    show "dayInv ?e (dateStrOf tz s k) (routineMinutes r (dateStrOf tz s k))
            (startOfDay w (routineMinutes r (dateStrOf tz s k)))"
      using dayShape_start by (simp add: dayInv_def startOfDay_def)
  next
    fix k st st'
    assume "dayInv ?e (dateStrOf tz s k) (routineMinutes r (dateStrOf tz s k)) st"
      and "iter ?e (dateStrOf tz s k) st st'"
    then show "dayInv ?e (dateStrOf tz s k) (routineMinutes r (dateStrOf tz s k)) st'"
      unfolding dayInv_def using itemOK_iter dayShape_iter by blast
  qed simp_all
  then show ?thesis by auto
qed

lemma agenda_items:
  assumes "generateSchedule calc tz pl r s cg lvl isPaused sims atts d = Some its"
    and "it \<in> set its"
  shows "itemOK (mkEnv calc pl r cg lvl sims atts) d it"
  using agenda_day [OF assms(1)] assms(2) by (auto simp: dayInv_def)

lemma agenda_shape:
  assumes "generateSchedule calc tz pl r s cg lvl isPaused sims atts d = Some its"
  shows "(\<forall>x\<in>set its. \<not> isSimuladoItem x)
      \<or> (\<exists>pre x. its = pre @ [x] \<and> isSimuladoItem x \<and> (\<forall>y\<in>set pre. \<not> isSimuladoItem y) \<and>
            (pre = [] \<or> routineMinutes r d - sum_list (map duration pre) > 60))"
  using agenda_day [OF assms(1)] by (auto simp: dayInv_def dayShape_def)



section \<open>Keys of the agenda and the end of a day\<close>

lemma agenda_keys:
  assumes "generateSchedule calc tz pl r s cg lvl isPaused sims atts d = Some its"
  shows "its \<noteq> [] \<and> routineMinutes r d \<noteq> 0 \<and> s + tz div 1440 \<le> d \<and> d < s + tz div 1440 + 90"
  using agenda_day [OF assms] by (auto simp: dateStrOf_eq MAX_DAYS_def)

lemma agenda_keys_west:
  assumes "generateSchedule calc tz pl r s cg lvl isPaused sims atts d = Some its"
    and "0 \<le> tz" "tz < 1440"
  shows "its \<noteq> [] \<and> routineMinutes r d \<noteq> 0 \<and> s \<le> d \<and> d < s + 90"
  using agenda_keys [OF assms(1)] assms(2,3) by simp










lemma orphan_exam_empty:
  "generateSchedule calc tz orphan_exam_plan r s cg lvl isPaused [] atts d = None"
proof (cases "generateSchedule calc tz orphan_exam_plan r s cg lvl isPaused [] atts d")
  case (Some its)
  let ?e = "mkEnv calc orphan_exam_plan r cg lvl [] atts"
  have "\<exists>k<MAX_DAYS. d = dateStrOf tz s k \<and> its \<noteq> [] \<and> routineMinutes r d \<noteq> 0 \<and>
           (\<exists>st::State. dayItems st = [] \<and> dayItems st = its)"
  proof (rule generateSchedule_invariant [OF Some, where W = "\<lambda>_. True"
        and I = "\<lambda>k (st::State). dayItems st = []"])
    fix k st st'
    assume empty: "dayItems st = []" and it: "iter ?e (dateStrOf tz s k) st st'"
    from it show "dayItems st' = []"
    proof (cases rule: iter.cases)
      case (nav c i)
      with empty show ?thesis by simp
    next
      case (exam ci sid simulado)
      then show ?thesis by (simp add: mkEnv_def)
    next
      case postpone
      with empty show ?thesis by simp
    next
      case (slot ci did queue)
      then show ?thesis by (simp add: mkEnv_def disciplineQueues_def orphan_exam_plan_def)
    qed
  qed (simp_all add: startOfDay_def)
  then show ?thesis by auto
qed simp

section \<open>Remaining content\<close>






section \<open>Exhausted cycles\<close>


lemma expandCycleItems_truthy:
  assumes "\<forall>d\<in>set (disciplines pl). discipline_id d \<noteq> []" and "ci \<in> set (expandCycleItems c pl)"
  shows "truthy (simuladoId ci) \<or> truthy (disciplineId ci)"
  using assms by (auto simp: expandCycleItems_def split: if_splits)

lemma end_of_items_rotativo:
  assumes "theCycleSystem (plan e) = rotativo"
    and "currentCycleIndex st < length (cycles (plan e))"
    and "currentItemIndex st \<ge> length (expandCycleItems (cycles (plan e) ! currentCycleIndex st) (plan e))"
  shows "loopBody e d st = (Continue, st\<lparr>currentCycleIndex := currentCycleIndex st + 1, currentItemIndex := 0\<rparr>)"
  using assms by (simp add: loopBody_def Let_def)

lemma dead_item_step:
  assumes lt: "currentCycleIndex st < length (cycles (plan e))"
    and idx: "currentItemIndex st < length (expandCycleItems (cycles (plan e) ! currentCycleIndex st) (plan e))"
    and exh: "isCycleExhausted e (disciplinePointers st) (currentCycleIndex st)"
    and ids: "\<forall>d\<in>set (disciplines (plan e)). discipline_id d \<noteq> []"
  shows "loopBody e d st = (Continue, st\<lparr>currentItemIndex := currentItemIndex st + 1\<rparr>)"
proof -
  define ci where "ci = expandCycleItems (cycles (plan e) ! currentCycleIndex st) (plan e) ! currentItemIndex st"
  have mem: "ci \<in> set (expandCycleItems (cycles (plan e) ! currentCycleIndex st) (plan e))"
    unfolding ci_def using idx by simp
  from exh lt mem have dead:
    "if truthy (simuladoId ci) then isSimuladoCompleted (the (simuladoId ci)) (userAttempts e)
     else if truthy (disciplineId ci) then
       (case disciplinePointers st (the (disciplineId ci)) of
          None \<Rightarrow> False
        | Some ptr \<Rightarrow> ptr \<ge> (case disciplineQueues (plan e) (the (disciplineId ci)) of
                                None \<Rightarrow> 0 | Some queue \<Rightarrow> length queue))
     else True"
    by (auto simp: isCycleExhausted_def list_all_iff)
  show ?thesis
  proof (cases "truthy (simuladoId ci)")
    case True
    with dead lt idx show ?thesis
      by (simp add: loopBody_def Let_def ci_def [symmetric])
  next
    case False
    with expandCycleItems_truthy [OF ids mem] have t: "truthy (disciplineId ci)" by simp
    with dead False lt idx show ?thesis
      by (auto simp: loopBody_def Let_def ci_def [symmetric] split: option.splits)
  qed
qed

lemma walk_exhausted:
  assumes rot: "theCycleSystem (plan e) = rotativo"
    and ids: "\<forall>d\<in>set (disciplines (plan e)). discipline_id d \<noteq> []"
  shows "currentCycleIndex st < length (cycles (plan e)) \<Longrightarrow>
     isCycleExhausted e (disciplinePointers st) (currentCycleIndex st) \<Longrightarrow>
     0 < minutesAvailable st \<Longrightarrow>
     length (expandCycleItems (cycles (plan e) ! currentCycleIndex st) (plan e)) - currentItemIndex st = k \<Longrightarrow>
     currentItemIndex st \<le> length (expandCycleItems (cycles (plan e) ! currentCycleIndex st) (plan e)) \<Longrightarrow>
     n + k < 500 \<Longrightarrow>
     dayLoop e d n st =
     dayLoop e d (n + k + 1) (st\<lparr>currentCycleIndex := currentCycleIndex st + 1, currentItemIndex := 0\<rparr>)"
proof (induction k arbitrary: n st)
  case 0
  then have "loopBody e d st =
      (Continue, st\<lparr>currentCycleIndex := currentCycleIndex st + 1, currentItemIndex := 0\<rparr>)"
    using rot by (intro end_of_items_rotativo) auto
  with 0 show ?case by (subst dayLoop.simps) simp
next
  case (Suc k)
  let ?st = "st\<lparr>currentItemIndex := currentItemIndex st + 1\<rparr>"
  from Suc.prems have b: "loopBody e d st = (Continue, ?st)"
    using ids by (intro dead_item_step) auto
  have "dayLoop e d (n + 1) ?st =
        dayLoop e d (n + 1 + k + 1) (?st\<lparr>currentCycleIndex := currentCycleIndex ?st + 1, currentItemIndex := 0\<rparr>)"
    using Suc.prems by (intro Suc.IH) auto
  with Suc.prems b show ?case by (subst dayLoop.simps) simp
qed



section \<open>Identifiers within a day\<close>

lemma sep_unique:
  "underscoreFree a \<Longrightarrow> underscoreFree a' \<Longrightarrow> a @ ''_'' @ r = a' @ ''_'' @ r' \<Longrightarrow> a = a' \<and> r = r'"
proof (induction a arbitrary: a')
  case Nil
  then show ?case by (cases a') (auto simp: underscoreFree_def)
next
  case (Cons x a)
  then show ?case by (cases a') (auto simp: underscoreFree_def)
qed

lemma goal_ids_differ:
  assumes "underscoreFree c" "underscoreFree c'" "underscoreFree did" "underscoreFree did'"
    and "c @ ''_'' @ did @ ''_'' @ g = c' @ ''_'' @ did' @ ''_'' @ g'"
  shows "c = c' \<and> did = did' \<and> g = g'"
proof -
  from sep_unique [OF assms(1,2,5)] have "c = c'" "did @ ''_'' @ g = did' @ ''_'' @ g'" by auto
  with sep_unique [OF assms(3,4)] show ?thesis by auto
qed

lemma goal_id_not_exam_id:
  assumes "underscoreFree c" "underscoreFree sid"
  shows "c @ ''_'' @ did @ ''_'' @ g \<noteq> ''SIM_'' @ sid"
proof
  assume "c @ ''_'' @ did @ ''_'' @ g = ''SIM_'' @ sid"
  then have "c @ ''_'' @ (did @ ''_'' @ g) = ''SIM'' @ ''_'' @ sid" by simp
  moreover have "underscoreFree ''SIM''" by (simp add: underscoreFree_def)
  ultimately have "did @ ''_'' @ g = sid" using sep_unique [OF assms(1)] by blast
  with assms(2) show False by (auto simp: underscoreFree_def)
qed

lemma disciplineQueues_fold:
  "fold (\<lambda>d m. m(discipline_id d \<mapsto> flatGoals d)) ds m did = Some q \<Longrightarrow>
   (\<exists>d\<in>set ds. discipline_id d = did \<and> q = flatGoals d) \<or> m did = Some q"
proof (induction ds arbitrary: m)
  case Nil
  then show ?case by simp
next
  case (Cons a ds)
  from Cons.prems
  have "fold (\<lambda>d m. m(discipline_id d \<mapsto> flatGoals d)) ds (m(discipline_id a \<mapsto> flatGoals a)) did = Some q"
    by (simp only: fold.simps o_apply)
  from Cons.IH [OF this] show ?case by (auto split: if_splits)
qed

lemma disciplineQueues_Some:
  "disciplineQueues pl did = Some q \<Longrightarrow> \<exists>d\<in>set (disciplines pl). discipline_id d = did \<and> q = flatGoals d"
  unfolding disciplineQueues_def by (drule disciplineQueues_fold) simp

lemma sum_list_sort_key: "(\<Sum>x\<leftarrow>sort_key k xs. (f x :: 'a multiset)) = (\<Sum>x\<leftarrow>xs. f x)"
proof -
  have "(\<Sum>x\<leftarrow>sort_key k xs. f x) = sum_mset (image_mset f (mset (sort_key k xs)))"
    by (metis mset_map sum_mset_sum_list)
  also have "\<dots> = sum_mset (image_mset f (mset xs))" by simp
  also have "\<dots> = (\<Sum>x\<leftarrow>xs. f x)" by (metis mset_map sum_mset_sum_list)
  finally show ?thesis .
qed

lemma mset_flatGoals:
  "mset (map (\<lambda>q. goal_id (goal q)) (flatGoals d)) = mset (map goal_id (concat (map goals (subjects d))))"
proof -
  have "mset (map (\<lambda>q. goal_id (goal q)) (flatGoals d)) =
        (\<Sum>s\<leftarrow>sort_key subject_order (subjects d). mset (map goal_id (sort_key goal_order (goals s))))"
    by (simp add: flatGoals_def map_concat mset_concat comp_def)
  also have "\<dots> = (\<Sum>s\<leftarrow>subjects d. mset (map goal_id (sort_key goal_order (goals s))))"
    by (rule sum_list_sort_key)
  also have "\<dots> = (\<Sum>s\<leftarrow>subjects d. mset (map goal_id (goals s)))"
    by simp
  also have "\<dots> = mset (map goal_id (concat (map goals (subjects d))))"
    by (simp add: map_concat mset_concat comp_def)
  finally show ?thesis .
qed

lemma distinct_flatGoals:
  "distinct (map goal_id (concat (map goals (subjects d)))) \<Longrightarrow>
   distinct (map (\<lambda>q. goal_id (goal q)) (flatGoals d))"
  using mset_flatGoals [of d] by (metis mset_eq_imp_distinct_iff)


lemma uniqueId_simps [simp]:
  "uniqueId (simuladoItem d sim) = (d, ''SIM_'' @ simulado_id sim)"
  "uniqueId (goalItem d c did qg dur) = (d, cycle_id c @ ''_'' @ did @ ''_'' @ goal_id (goal qg))"
  by (simp_all add: simuladoItem_def goalItem_def)

lemma uniqueDay_start: "uniqueDay e d (startOfDay w m)"
  by (simp add: uniqueDay_def startOfDay_def)

lemma wellFormed_queue:
  assumes "wellFormedIds (plan e) (allSimulados e)" and "disciplineQueues (plan e) did = Some q"
  shows "underscoreFree did" and "distinct (map (\<lambda>x. goal_id (goal x)) q)"
proof -
  from disciplineQueues_Some [OF assms(2)] obtain d0 where
    d0: "d0 \<in> set (disciplines (plan e))" "discipline_id d0 = did" "q = flatGoals d0" by blast
  with assms(1) show "underscoreFree did" by (auto simp: wellFormedIds_def)
  from d0 assms(1) have "distinct (map goal_id (concat (map goals (subjects d0))))"
    by (auto simp: wellFormedIds_def)
  then show "distinct (map (\<lambda>x. goal_id (goal x)) q)" unfolding d0(3) by (rule distinct_flatGoals)
qed

lemma uniqueDay_slotStep:
  assumes wf: "wellFormedIds (plan e) (allSimulados e)"
    and c: "c \<in> set (cycles (plan e))"
    and q: "disciplineQueues (plan e) did = Some q"
    and step: "slotStep e d c did q s s'"
    and U: "uniqueDay e d s"
  shows "uniqueDay e d s'"
  using step
proof (cases rule: slotStep.cases)
  case (skip p)
  have "\<exists>c\<in>set (cycles (plan e)). \<exists>did' q' p' i.
          disciplineQueues (plan e) did' = Some q' \<and> disciplinePointers s' did' = Some p' \<and>
          i < p' \<and> i < length q' \<and>
          uniqueId it = (d, cycle_id c @ ''_'' @ did' @ ''_'' @ goal_id (goal (q' ! i)))"
    if "it \<in> set (dayItems s)" "\<not> isSimuladoItem it" for it
  proof -
    from U that obtain c' did' q' p' i where
      o: "c' \<in> set (cycles (plan e))" "disciplineQueues (plan e) did' = Some q'"
         "disciplinePointers s did' = Some p'" "i < p'" "i < length q'"
         "uniqueId it = (d, cycle_id c' @ ''_'' @ did' @ ''_'' @ goal_id (goal (q' ! i)))"
      unfolding uniqueDay_def by (metis (no_types, lifting))
    show ?thesis
    proof (cases "did' = did")
      case True
      with o skip have "disciplinePointers s' did' = Some (p + 1)" "i < p + 1" by auto
      with o show ?thesis by blast
    next
      case False
      with o skip have "disciplinePointers s' did' = Some p'" by auto
      with o show ?thesis by blast
    qed
  qed
  moreover have "dayItems s' = dayItems s" using skip by simp
  ultimately show ?thesis using U unfolding uniqueDay_def by (simp split: if_splits)
next
  case (place p)
  define new where "new = goalItem d c did (q ! p) (goalDuration e (goal (q ! p)))"
  have items: "dayItems s' = dayItems s @ [new]" using place by (simp add: new_def)
  have ptr: "disciplinePointers s' = (disciplinePointers s)(did \<mapsto> p + 1)" using place by simp
  have cfree: "underscoreFree (cycle_id c)" using wf c by (auto simp: wellFormedIds_def)
  note qwf = wellFormed_queue [OF wf q]
  have old: "\<exists>c\<in>set (cycles (plan e)). \<exists>did' q' p' i.
          disciplineQueues (plan e) did' = Some q' \<and> disciplinePointers s' did' = Some p' \<and>
          i < p' \<and> i < length q' \<and>
          uniqueId it = (d, cycle_id c @ ''_'' @ did' @ ''_'' @ goal_id (goal (q' ! i)))"
    if "it \<in> set (dayItems s)" "\<not> isSimuladoItem it" for it
  proof -
    from U that obtain c' did' q' p' i where
      o: "c' \<in> set (cycles (plan e))" "disciplineQueues (plan e) did' = Some q'"
         "disciplinePointers s did' = Some p'" "i < p'" "i < length q'"
         "uniqueId it = (d, cycle_id c' @ ''_'' @ did' @ ''_'' @ goal_id (goal (q' ! i)))"
      unfolding uniqueDay_def by (metis (no_types, lifting))
    show ?thesis
    proof (cases "did' = did")
      case True
      with o place(2) ptr have "disciplinePointers s' did' = Some (p + 1)" "i < p + 1" by auto
      with o show ?thesis by blast
    next
      case False
      with o ptr have "disciplinePointers s' did' = Some p'" by auto
      with o show ?thesis by blast
    qed
  qed
  have new_form: "\<exists>c\<in>set (cycles (plan e)). \<exists>did' q' p' i.
          disciplineQueues (plan e) did' = Some q' \<and> disciplinePointers s' did' = Some p' \<and>
          i < p' \<and> i < length q' \<and>
          uniqueId new = (d, cycle_id c @ ''_'' @ did' @ ''_'' @ goal_id (goal (q' ! i)))"
    using c q ptr place(3) unfolding new_def
    by (intro bexI [of _ c] exI [of _ did] exI [of _ q] exI [of _ "p + 1"] exI [of _ p]) auto
  have fresh: "uniqueId new \<noteq> uniqueId it" if "it \<in> set (dayItems s)" for it
  proof (cases "isSimuladoItem it")
    case True
    with U that obtain sim where "sim \<in> set (allSimulados e)"
      "uniqueId it = (d, ''SIM_'' @ simulado_id sim)"
      unfolding uniqueDay_def by (metis (no_types, lifting))
    moreover from this wf have "underscoreFree (simulado_id sim)" by (auto simp: wellFormedIds_def)
    ultimately show ?thesis
      using goal_id_not_exam_id [OF cfree, of "simulado_id sim" did "goal_id (goal (q ! p))"]
      by (simp add: new_def)
  next
    case False
    from U that False obtain c' did' q' p' i where
      o: "c' \<in> set (cycles (plan e))" "disciplineQueues (plan e) did' = Some q'"
         "disciplinePointers s did' = Some p'" "i < p'" "i < length q'"
         "uniqueId it = (d, cycle_id c' @ ''_'' @ did' @ ''_'' @ goal_id (goal (q' ! i)))"
      unfolding uniqueDay_def by (metis (no_types, lifting))
    show ?thesis
    proof
      assume "uniqueId new = uniqueId it"
      with o(6) have eq: "cycle_id c @ ''_'' @ did @ ''_'' @ goal_id (goal (q ! p)) =
                     cycle_id c' @ ''_'' @ did' @ ''_'' @ goal_id (goal (q' ! i))"
        by (simp add: new_def)
      have "underscoreFree (cycle_id c')" using wf o(1) by (auto simp: wellFormedIds_def)
      from goal_ids_differ [OF cfree this qwf(1) wellFormed_queue(1) [OF wf o(2)] eq]
      have same: "did = did'" "goal_id (goal (q ! p)) = goal_id (goal (q' ! i))" by auto
      with q o(2,3) place(2) have "q' = q" "p' = p" by auto
      with o(4,5) place(3) same(2) qwf(2) have "i = p"
        by (metis (no_types, lifting) length_map nth_eq_iff_index_eq nth_map)
      with \<open>i < p'\<close> \<open>p' = p\<close> show False by simp
    qed
  qed
  have d: "distinct (map uniqueId (dayItems s'))"
    using U fresh unfolding items uniqueDay_def by auto
  have "\<not> isSimuladoItem new" by (simp add: new_def)
  with d old new_form U show ?thesis
    unfolding uniqueDay_def items by (auto split: if_splits)
qed


lemma uniqueDay_cong:
  "dayItems s' = dayItems s \<Longrightarrow> disciplinePointers s' = disciplinePointers s \<Longrightarrow>
   uniqueDay e d s \<Longrightarrow> uniqueDay e d s'"
  by (simp add: uniqueDay_def)

lemma uniqueDay_iter:
  assumes wf: "wellFormedIds (plan e) (allSimulados e)"
    and it: "iter e d s s'" and shape: "dayShape m0 s" and U: "uniqueDay e d s"
  shows "uniqueDay e d s'"
  using it
proof (cases rule: iter.cases)
  case (nav c i)
  show ?thesis by (rule uniqueDay_cong [OF _ _ U]) (simp_all add: nav)
next
  case (exam ci sid simulado)
  from shape exam(2) have noexam: "\<forall>x\<in>set (dayItems s). \<not> isSimuladoItem x"
    by (auto simp: dayShape_def)
  from exam(7) have sim: "simulado \<in> set (allSimulados e)"
    by (auto simp: find_Some_iff in_set_conv_nth)
  then have sfree: "underscoreFree (simulado_id simulado)" using wf by (auto simp: wellFormedIds_def)
  have fresh: "uniqueId (simuladoItem d simulado) \<noteq> uniqueId it" if "it \<in> set (dayItems s)" for it
  proof -
    from U that noexam obtain c' did' q' p' i where
      o: "c' \<in> set (cycles (plan e))" "disciplineQueues (plan e) did' = Some q'"
         "disciplinePointers s did' = Some p'" "i < p'" "i < length q'"
         "uniqueId it = (d, cycle_id c' @ ''_'' @ did' @ ''_'' @ goal_id (goal (q' ! i)))"
      unfolding uniqueDay_def by (metis (no_types, lifting))
    have "underscoreFree (cycle_id c')" using wf o(1) by (auto simp: wellFormedIds_def)
    from goal_id_not_exam_id [OF this sfree, of did' "goal_id (goal (q' ! i))"] o(6)
    show ?thesis by simp
  qed
  have items: "dayItems s' = dayItems s @ [simuladoItem d simulado]"
    and ptr: "disciplinePointers s' = disciplinePointers s"
    using exam(1) by simp_all
  have d: "distinct (map uniqueId (dayItems s'))"
    using U fresh unfolding items uniqueDay_def by auto
  with U sim show ?thesis
    unfolding uniqueDay_def items ptr by (auto split: if_splits)
next
  case postpone
  show ?thesis by (rule uniqueDay_cong [OF _ _ U]) (simp_all add: postpone)
next
  case (slot ci did queue)
  have c: "cycles (plan e) ! currentCycleIndex s \<in> set (cycles (plan e))"
    using slot(2) by simp
  show ?thesis
  proof (rule slotRun_invariant [OF slot(6), where P = "uniqueDay e d" and Q = "uniqueDay e d"])
    show "uniqueDay e d s" by (rule U)
  next
    fix a b
    assume "uniqueDay e d a" "slotStep e d (cycles (plan e) ! currentCycleIndex s) did queue a b"
    then show "uniqueDay e d b" using uniqueDay_slotStep [OF wf c slot(5)] by blast
  next
    fix a
    assume "uniqueDay e d a"
    then show "uniqueDay e d (a\<lparr>minutesAvailable := 0\<rparr>)"
      by (rule uniqueDay_cong [rotated 2]) simp_all
  qed
qed

section \<open>Concrete runs\<close>



lemma exam_scenario:
  "generateSchedule (flat_calc 0) 180 exam_plan (monday_routine 120) 19723 [''g1''] iniciante False
     [exam_sim] [] 19723 =
     Some [goalItem 19723 exam_cycle ''mat'' (mat_queued quiz_goal) 15, simuladoItem 19723 exam_sim]"
  by code_simp

lemma exam_scenario_fresh:
  "generateSchedule (flat_calc 0) 180 exam_plan (monday_routine 120) 19723 [] iniciante False
     [exam_sim] [] 19723 =
     Some [goalItem 19723 exam_cycle ''mat'' (mat_queued mat_goal1) 30, simuladoItem 19723 exam_sim]"
  by code_simp





















lemma finished_scenario:
  "generateSchedule (flat_calc 30) 180 finished_plan (monday_routine 60) 19723 [''p1''] iniciante
     False [] [] 19723 =
     Some [goalItem 19723 mat_cycle ''mat'' (mat_queued mat_goal1) 30,
           goalItem 19723 mat_cycle ''mat'' (mat_queued mat_goal2) 30]"
  by code_simp








section \<open>The claims\<close>

text \<open>
  \<^bold>\<open>C4\<close>.  If the plan is paused, or the plan has no cycles, or every entry of the routine
  is zero minutes, the scheduler returns the empty mapping.  The three tests are the first
  statements of the function: nothing is computed per day, and no error is raised.
\<close>

theorem fast_exits:
  assumes "isPaused \<or> cycles pl = [] \<or> (\<forall>v\<in>set (map snd (days r)). v = 0)"
  shows "generateSchedule calc tz pl r s cg lvl isPaused sims atts = Map.empty"
  using assms by (auto simp: generateSchedule_def hasAvailability_def list_ex_iff)

theorem fast_exits_witness:
  "generateSchedule (flat_calc 30) 180 mat_plan (monday_routine 60) 19723 [] iniciante True [] []
     = Map.empty
   \<and> cycles (mat_plan\<lparr>cycles := []\<rparr>) = []
   \<and> generateSchedule (flat_calc 30) 180 (mat_plan\<lparr>cycles := []\<rparr>) (monday_routine 60) 19723 []
       iniciante False [] [] = Map.empty
   \<and> map snd (days (monday_routine 0)) = [0]
   \<and> generateSchedule (flat_calc 30) 180 mat_plan (monday_routine 0) 19723 [] iniciante False [] []
       = Map.empty"
proof -
  have h2: "cycles (mat_plan\<lparr>cycles := []\<rparr>) = []" by simp
  have h3: "map snd (days (monday_routine 0)) = [0]"
    by (simp add: monday_routine_def)
  show ?thesis
    using h2 h3
      fast_exits [of True mat_plan "monday_routine 60" "flat_calc 30" 180 19723 "[]" iniciante "[]" "[]"]
      fast_exits [of False "mat_plan\<lparr>cycles := []\<rparr>" "monday_routine 60" "flat_calc 30" 180 19723
                    "[]" iniciante "[]" "[]"]
      fast_exits [of False mat_plan "monday_routine 0" "flat_calc 30" 180 19723 "[]" iniciante "[]" "[]"]
    by simp
qed


text \<open>
  \<^bold>\<open>C3\<close>, as stated, fails for an exam item: its \<^verbatim>\<open>goalId\<close> is the identifier of the
  exam, and the exam branch consults the attempts only.  With the identifier \<^verbatim>\<open>s1\<close> of the
  exam in \<^verbatim>\<open>completedGoals\<close> (the check box of an agenda item passes \<^verbatim>\<open>item.goalId\<close> to
  \<^verbatim>\<open>toggleGoalComplete\<close>) and no attempt, the Monday holds the exam item.
\<close>

theorem completed_exam_id_counterexample:
  "generateSchedule (flat_calc 30) 180 exam_plan (monday_routine 120) 19723 [''s1''] iniciante False
     [exam_sim] [] 19723 =
     Some [goalItem 19723 exam_cycle ''mat'' (mat_queued mat_goal1) 30, simuladoItem 19723 exam_sim]
   \<and> goalId (simuladoItem 19723 exam_sim) = ''s1''"
  by code_simp

text \<open>
  \<^bold>\<open>C3\<close>, amended.  Every item of the agenda, on any date, that is not an exam item is
  for a goal whose identifier is not in \<^verbatim>\<open>completedGoals\<close>; and when the discipline visit
  stands in front of a completed goal, it goes on with the pointer (local and in the table)
  moved one past it, the minutes, the day's items and the slot counters being untouched.
\<close>

theorem completed_goals_never_scheduled:
  "(\<forall>d its it. generateSchedule calc tz pl r s cg lvl isPaused sims atts d = Some its \<longrightarrow>
       it \<in> set its \<longrightarrow> \<not> isSimuladoItem it \<longrightarrow>
       goalId it \<notin> set cg \<and> (\<exists>g. originalGoal it = Some g \<and> goal_id g = goalId it))
   \<and> (\<forall>sl sc queue e dateStr cycle did st.
        int (scheduledInThisSlot sl) < sc \<longrightarrow> pointer sl < length queue \<longrightarrow>
        goal_id (goal (queue ! pointer sl)) \<in> set (completedGoals e) \<longrightarrow>
        slotLoop e dateStr cycle did sc queue sl st =
        slotLoop e dateStr cycle did sc queue (sl\<lparr>pointer := pointer sl + 1\<rparr>)
          (st\<lparr>disciplinePointers := (disciplinePointers st)(did \<mapsto> pointer sl + 1)\<rparr>))"
proof (intro conjI allI impI)
  fix d its it
  assume a: "generateSchedule calc tz pl r s cg lvl isPaused sims atts d = Some its" "it \<in> set its"
    and g: "\<not> isSimuladoItem it"
  from a have "itemOK (mkEnv calc pl r cg lvl sims atts) d it" by (rule agenda_items)
  with g show "goalId it \<notin> set cg" "\<exists>g. originalGoal it = Some g \<and> goal_id g = goalId it"
    by (auto simp: itemOK_def goalItem_def mkEnv_def)
qed (rule slotLoop_skip)

theorem completed_goals_never_scheduled_witness:
  "generateSchedule (flat_calc 0) 180 exam_plan (monday_routine 120) 19723 [''g1''] iniciante False
     [exam_sim] [] 19723 =
     Some [goalItem 19723 exam_cycle ''mat'' (mat_queued quiz_goal) 15, simuladoItem 19723 exam_sim]
   \<and> \<not> isSimuladoItem (goalItem 19723 exam_cycle ''mat'' (mat_queued quiz_goal) 15)
   \<and> goalId (goalItem 19723 exam_cycle ''mat'' (mat_queued quiz_goal) 15) \<notin> set [''g1'']
   \<and> originalGoal (goalItem 19723 exam_cycle ''mat'' (mat_queued quiz_goal) 15) = Some quiz_goal
   \<and> goal_id (goal ([mat_queued mat_goal1, mat_queued quiz_goal] ! 0))
        \<in> set (completedGoals (mkEnv (flat_calc 0) exam_plan (monday_routine 120) [''g1''] iniciante
                                  [exam_sim] []))
   \<and> slotLoop (mkEnv (flat_calc 0) exam_plan (monday_routine 120) [''g1''] iniciante [exam_sim] [])
        19723 exam_cycle ''mat'' 1 [mat_queued mat_goal1, mat_queued quiz_goal]
        \<lparr>scheduledInThisSlot = 0, lastSubName = [], processedSomething = False, pointer = 0\<rparr>
        \<lparr>currentCycleIndex = 0, currentItemIndex = 0, disciplinePointers = [''mat'' \<mapsto> 0],
         minutesAvailable = 120, itemsProcessedToday = 0, dayItems = []\<rparr>
     = slotLoop (mkEnv (flat_calc 0) exam_plan (monday_routine 120) [''g1''] iniciante [exam_sim] [])
        19723 exam_cycle ''mat'' 1 [mat_queued mat_goal1, mat_queued quiz_goal]
        \<lparr>scheduledInThisSlot = 0, lastSubName = [], processedSomething = False, pointer = 1\<rparr>
        \<lparr>currentCycleIndex = 0, currentItemIndex = 0, disciplinePointers = [''mat'' \<mapsto> 1],
         minutesAvailable = 120, itemsProcessedToday = 0, dayItems = []\<rparr>"
proof -
  let ?A = "goalItem 19723 exam_cycle ''mat'' (mat_queued quiz_goal) 15"
  let ?B = "simuladoItem 19723 exam_sim"
  let ?e = "mkEnv (flat_calc 0) exam_plan (monday_routine 120) [''g1''] iniciante [exam_sim] []"
  let ?q = "[mat_queued mat_goal1, mat_queued quiz_goal]"
  let ?sl = "\<lparr>scheduledInThisSlot = 0, lastSubName = [], processedSomething = False, pointer = 0\<rparr>"
  let ?st = "\<lparr>currentCycleIndex = 0, currentItemIndex = 0, disciplinePointers = [''mat'' \<mapsto> 0],
         minutesAvailable = 120, itemsProcessedToday = 0, dayItems = []\<rparr>"
  have h1: "generateSchedule (flat_calc 0) 180 exam_plan (monday_routine 120) 19723 [''g1''] iniciante
              False [exam_sim] [] 19723 = Some [?A, ?B]"
    by (rule exam_scenario)
  have h2: "?A \<in> set [?A, ?B]" by simp
  have h3: "\<not> isSimuladoItem ?A" by simp
  have o: "originalGoal ?A = Some quiz_goal" by (simp add: goalItem_def mat_queued_def)
  have c1: "goalId ?A \<notin> set [''g1'']"
    using completed_goals_never_scheduled [THEN conjunct1, rule_format, OF h1 h2 h3] by blast
  have g1: "int (scheduledInThisSlot ?sl) < 1" by simp
  have g2: "pointer ?sl < length ?q" by simp
  have g3: "goal_id (goal (?q ! pointer ?sl)) \<in> set (completedGoals ?e)"
    by (simp add: mkEnv_def mat_queued_def mat_goal1_def)
  have c2: "slotLoop ?e 19723 exam_cycle ''mat'' 1 ?q ?sl ?st =
            slotLoop ?e 19723 exam_cycle ''mat'' 1 ?q (?sl\<lparr>pointer := pointer ?sl + 1\<rparr>)
              (?st\<lparr>disciplinePointers := (disciplinePointers ?st)(''mat'' \<mapsto> pointer ?sl + 1)\<rparr>)"
    using completed_goals_never_scheduled [THEN conjunct2, rule_format, OF g1 g2 g3] .
  from g3 have g3': "goal_id (goal (?q ! 0)) \<in> set (completedGoals ?e)" by simp
  from c2 have c2': "slotLoop ?e 19723 exam_cycle ''mat'' 1 ?q ?sl ?st =
            slotLoop ?e 19723 exam_cycle ''mat'' 1 ?q
              \<lparr>scheduledInThisSlot = 0, lastSubName = [], processedSomething = False, pointer = 1\<rparr>
              \<lparr>currentCycleIndex = 0, currentItemIndex = 0, disciplinePointers = [''mat'' \<mapsto> 1],
               minutesAvailable = 120, itemsProcessedToday = 0, dayItems = []\<rparr>"
    by simp
  from h1 h3 c1 o g3' c2' show ?thesis by blast
qed

text \<open>
  \<^bold>\<open>C5\<close>.  The duration recorded for a scheduled goal is the value of the external rule
  when that value is not zero; when it is zero, it is 15 minutes for a goal whose type is
  not \<^verbatim>\<open>AULA\<close> and 30 minutes for a goal of type \<^verbatim>\<open>AULA\<close>.
\<close>

theorem zero_duration_floor:
  assumes "generateSchedule calc tz pl r s cg lvl isPaused sims atts d = Some its"
    and "it \<in> set its" and "originalGoal it = Some g"
  shows "duration it =
           (if calc g lvl \<noteq> 0 then calc g lvl
            else if goal_type g \<noteq> ''AULA'' then 15 else 30)"
proof -
  have "itemOK (mkEnv calc pl r cg lvl sims atts) d it" using assms(1,2) by (rule agenda_items)
  with assms(3) show ?thesis
    by (auto simp: itemOK_def goalItem_def simuladoItem_def mkEnv_def goalDuration_def Let_def)
qed

theorem zero_duration_floor_witness:
  "generateSchedule (flat_calc 0) 180 exam_plan (monday_routine 120) 19723 [''g1''] iniciante False
     [exam_sim] [] 19723 =
     Some [goalItem 19723 exam_cycle ''mat'' (mat_queued quiz_goal) 15, simuladoItem 19723 exam_sim]
   \<and> originalGoal (goalItem 19723 exam_cycle ''mat'' (mat_queued quiz_goal) 15) = Some quiz_goal
   \<and> flat_calc 0 quiz_goal iniciante = 0 \<and> goal_type quiz_goal \<noteq> ''AULA''
   \<and> duration (goalItem 19723 exam_cycle ''mat'' (mat_queued quiz_goal) 15) = 15
   \<and> generateSchedule (flat_calc 0) 180 exam_plan (monday_routine 120) 19723 [] iniciante False
     [exam_sim] [] 19723 =
     Some [goalItem 19723 exam_cycle ''mat'' (mat_queued mat_goal1) 30, simuladoItem 19723 exam_sim]
   \<and> originalGoal (goalItem 19723 exam_cycle ''mat'' (mat_queued mat_goal1) 30) = Some mat_goal1
   \<and> flat_calc 0 mat_goal1 iniciante = 0 \<and> goal_type mat_goal1 = ''AULA''
   \<and> duration (goalItem 19723 exam_cycle ''mat'' (mat_queued mat_goal1) 30) = 30"
proof -
  let ?A = "goalItem 19723 exam_cycle ''mat'' (mat_queued quiz_goal) 15"
  let ?A' = "goalItem 19723 exam_cycle ''mat'' (mat_queued mat_goal1) 30"
  let ?B = "simuladoItem 19723 exam_sim"
  have h1: "generateSchedule (flat_calc 0) 180 exam_plan (monday_routine 120) 19723 [''g1''] iniciante
              False [exam_sim] [] 19723 = Some [?A, ?B]"
    by (rule exam_scenario)
  have h2: "?A \<in> set [?A, ?B]" by simp
  have h3: "originalGoal ?A = Some quiz_goal" by (simp add: goalItem_def mat_queued_def)
  have f: "flat_calc 0 quiz_goal iniciante = 0" "goal_type quiz_goal \<noteq> ''AULA''"
    by (simp_all add: flat_calc_def quiz_goal_def)
  have c: "duration ?A = 15"
    using zero_duration_floor [OF h1 h2 h3] f by simp
  have k1: "generateSchedule (flat_calc 0) 180 exam_plan (monday_routine 120) 19723 [] iniciante
              False [exam_sim] [] 19723 = Some [?A', ?B]"
    by (rule exam_scenario_fresh)
  have k2: "?A' \<in> set [?A', ?B]" by simp
  have k3: "originalGoal ?A' = Some mat_goal1" by (simp add: goalItem_def mat_queued_def)
  have f': "flat_calc 0 mat_goal1 iniciante = 0" "goal_type mat_goal1 = ''AULA''"
    by (simp_all add: flat_calc_def mat_goal1_def)
  have c': "duration ?A' = 30"
    using zero_duration_floor [OF k1 k2 k3] f' by simp
  from h1 h3 f c k1 k3 f' c' show ?thesis by blast
qed

text \<open>
  \<^bold>\<open>C10\<close>.  If the list of a date contains an exam item, that item is the last element of
  the list and no item before it is an exam.
\<close>

theorem simulado_is_last:
  assumes "generateSchedule calc tz pl r s cg lvl isPaused sims atts d = Some its"
    and "it \<in> set its" and "isSimuladoItem it"
  shows "\<exists>pre. its = pre @ [it] \<and> (\<forall>x\<in>set pre. \<not> isSimuladoItem x)"
  using agenda_shape [OF assms(1)] assms(2,3) by auto

theorem simulado_is_last_witness:
  "generateSchedule (flat_calc 0) 180 exam_plan (monday_routine 120) 19723 [''g1''] iniciante False
     [exam_sim] [] 19723 =
     Some [goalItem 19723 exam_cycle ''mat'' (mat_queued quiz_goal) 15, simuladoItem 19723 exam_sim]
   \<and> isSimuladoItem (simuladoItem 19723 exam_sim)
   \<and> (\<exists>pre. [goalItem 19723 exam_cycle ''mat'' (mat_queued quiz_goal) 15, simuladoItem 19723 exam_sim]
              = pre @ [simuladoItem 19723 exam_sim]
            \<and> (\<forall>x\<in>set pre. \<not> isSimuladoItem x))"
proof -
  let ?A = "goalItem 19723 exam_cycle ''mat'' (mat_queued quiz_goal) 15"
  let ?B = "simuladoItem 19723 exam_sim"
  have h1: "generateSchedule (flat_calc 0) 180 exam_plan (monday_routine 120) 19723 [''g1''] iniciante
              False [exam_sim] [] 19723 = Some [?A, ?B]"
    by (rule exam_scenario)
  have h2: "?B \<in> set [?A, ?B]" by simp
  have h3: "isSimuladoItem ?B" by simp
  have c: "\<exists>pre. [?A, ?B] = pre @ [?B] \<and> (\<forall>x\<in>set pre. \<not> isSimuladoItem x)"
    using simulado_is_last [OF h1 h2 h3] .
  from h1 h3 c show ?thesis by blast
qed

text \<open>
  \<^bold>\<open>C1\<close>, as stated, fails: with 120 minutes on a Monday, a first goal of 15 minutes
  leaves 105 minutes, more than the 60 that line 806 asks for, and the exam is placed
  after the goal.
\<close>

theorem exam_after_goal_counterexample:
  "generateSchedule (flat_calc 0) 180 exam_plan (monday_routine 120) 19723 [''g1''] iniciante False
     [exam_sim] [] 19723 =
     Some [goalItem 19723 exam_cycle ''mat'' (mat_queued quiz_goal) 15, simuladoItem 19723 exam_sim]
   \<and> isSimuladoItem (simuladoItem 19723 exam_sim)
   \<and> length [goalItem 19723 exam_cycle ''mat'' (mat_queued quiz_goal) 15,
              simuladoItem 19723 exam_sim] = 2"
  by (simp add: exam_scenario)

text \<open>
  \<^bold>\<open>C1\<close>, amended.  A date whose list contains an exam item contains exactly one exam
  item; and it contains exactly one item in total unless more than 60 minutes of the
  weekday's budget were left after the items placed before the exam.
\<close>

theorem simulado_day_shape:
  assumes "generateSchedule calc tz pl r s cg lvl isPaused sims atts d = Some its"
    and "\<exists>x\<in>set its. isSimuladoItem x"
  shows "length (filter isSimuladoItem its) = 1 \<and>
         (length its = 1 \<or> routineMinutes r d - sum_list (map duration (butlast its)) > 60)"
  using agenda_shape [OF assms(1)] assms(2) by auto

theorem simulado_day_shape_witness:
  "generateSchedule (flat_calc 0) 180 exam_plan (monday_routine 120) 19723 [''g1''] iniciante False
     [exam_sim] [] 19723 =
     Some [goalItem 19723 exam_cycle ''mat'' (mat_queued quiz_goal) 15, simuladoItem 19723 exam_sim]
   \<and> (\<exists>x\<in>set [goalItem 19723 exam_cycle ''mat'' (mat_queued quiz_goal) 15,
                 simuladoItem 19723 exam_sim]. isSimuladoItem x)
   \<and> length (filter isSimuladoItem
        [goalItem 19723 exam_cycle ''mat'' (mat_queued quiz_goal) 15, simuladoItem 19723 exam_sim]) = 1
   \<and> routineMinutes (monday_routine 120) 19723
       - sum_list (map duration [goalItem 19723 exam_cycle ''mat'' (mat_queued quiz_goal) 15]) = 105"
proof -
  let ?A = "goalItem 19723 exam_cycle ''mat'' (mat_queued quiz_goal) 15"
  let ?B = "simuladoItem 19723 exam_sim"
  have h1: "generateSchedule (flat_calc 0) 180 exam_plan (monday_routine 120) 19723 [''g1''] iniciante
              False [exam_sim] [] 19723 = Some [?A, ?B]"
    by (rule exam_scenario)
  have h2: "\<exists>x\<in>set [?A, ?B]. isSimuladoItem x" by simp
  have c: "length (filter isSimuladoItem [?A, ?B]) = 1 \<and>
           (length [?A, ?B] = 1 \<or>
            routineMinutes (monday_routine 120) 19723 - sum_list (map duration (butlast [?A, ?B])) > 60)"
    using simulado_day_shape [OF h1 h2] .
  have m: "routineMinutes (monday_routine 120) 19723 - sum_list (map duration [?A]) = 105"
    by (simp add: routineMinutes_def monday_routine_def getDayName_def dayMap_def)
  from h1 h2 c m show ?thesis by blast
qed

text \<open>
  \<^bold>\<open>C9\<close>, as stated, fails when identifiers collide in the template of \<^verbatim>\<open>uniqueId\<close>:
  two goals of one discipline with the same identifier; discipline \<^verbatim>\<open>a\<close> with goal
  \<^verbatim>\<open>b_g\<close> and discipline \<^verbatim>\<open>a_b\<close> with goal \<^verbatim>\<open>g\<close>; cycle \<^verbatim>\<open>c_1\<close> with discipline \<^verbatim>\<open>a\<close>
  and cycle \<^verbatim>\<open>c\<close> with discipline \<^verbatim>\<open>1\<close> and goal \<^verbatim>\<open>a_g\<close>; cycle \<^verbatim>\<open>SIM\<close> with
  discipline \<^verbatim>\<open>a\<close>, goal \<^verbatim>\<open>g\<close> and the exam \<^verbatim>\<open>a_g\<close>.  In each case the Monday holds two
  items with the same \<^verbatim>\<open>uniqueId\<close>.
\<close>

theorem colliding_ids_counterexample:
  "map_option (map uniqueId)
     (generateSchedule (flat_calc 30) 180 twin_plan (monday_routine 60) 19723 [] iniciante False [] [] 19723)
     = Some [(19723, ''c1_mat_g1''), (19723, ''c1_mat_g1'')]
   \<and> map_option (map uniqueId)
     (generateSchedule (flat_calc 30) 180 split_discipline_plan (monday_routine 60) 19723 [] iniciante
        False [] [] 19723)
     = Some [(19723, ''c1_a_b_g''), (19723, ''c1_a_b_g'')]
   \<and> map_option (map uniqueId)
     (generateSchedule (flat_calc 30) 180 split_cycle_plan (monday_routine 60) 19723 [] iniciante
        False [] [] 19723)
     = Some [(19723, ''c_1_a_g''), (19723, ''c_1_a_g'')]
   \<and> map_option (map uniqueId)
     (generateSchedule (flat_calc 30) 180 split_exam_plan (monday_routine 120) 19723 [] iniciante
        False [split_exam] [] 19723)
     = Some [(19723, ''SIM_a_g''), (19723, ''SIM_a_g'')]"
  by code_simp

text \<open>
  \<^bold>\<open>C9\<close>, amended.  When the goals of each discipline have pairwise different identifiers
  and no cycle, discipline or exam identifier contains an underscore, no two items of a
  date's list have the same \<^verbatim>\<open>uniqueId\<close>.
\<close>

theorem unique_ids_per_day:
  assumes "wellFormedIds pl sims"
    and "generateSchedule calc tz pl r s cg lvl isPaused sims atts d = Some its"
  shows "distinct (map uniqueId its)"
proof -
  let ?e = "mkEnv calc pl r cg lvl sims atts"
  have wf: "wellFormedIds (plan ?e) (allSimulados ?e)" using assms(1) by (simp add: mkEnv_def)
  have "\<exists>k<MAX_DAYS. d = dateStrOf tz s k \<and> its \<noteq> [] \<and> routineMinutes r d \<noteq> 0 \<and>
           (\<exists>st. (dayShape (routineMinutes r (dateStrOf tz s k)) st \<and> uniqueDay ?e (dateStrOf tz s k) st)
                 \<and> dayItems st = its)"
  proof (rule generateSchedule_invariant [OF assms(2), where W = "\<lambda>_. True"
        and I = "\<lambda>k st. dayShape (routineMinutes r (dateStrOf tz s k)) st \<and> uniqueDay ?e (dateStrOf tz s k) st"])
    fix k w
    show "dayShape (routineMinutes r (dateStrOf tz s k)) (startOfDay w (routineMinutes r (dateStrOf tz s k)))
          \<and> uniqueDay ?e (dateStrOf tz s k) (startOfDay w (routineMinutes r (dateStrOf tz s k)))"
      using dayShape_start uniqueDay_start by blast
  next
    fix k st st'
    assume "dayShape (routineMinutes r (dateStrOf tz s k)) st \<and> uniqueDay ?e (dateStrOf tz s k) st"
      and "iter ?e (dateStrOf tz s k) st st'"
    then show "dayShape (routineMinutes r (dateStrOf tz s k)) st' \<and> uniqueDay ?e (dateStrOf tz s k) st'"
      using dayShape_iter uniqueDay_iter [OF wf] by blast
  qed simp_all
  then show ?thesis by (auto simp: uniqueDay_def)
qed

theorem unique_ids_per_day_witness:
  "wellFormedIds exam_plan [exam_sim]
   \<and> generateSchedule (flat_calc 0) 180 exam_plan (monday_routine 120) 19723 [''g1''] iniciante False
     [exam_sim] [] 19723 =
     Some [goalItem 19723 exam_cycle ''mat'' (mat_queued quiz_goal) 15, simuladoItem 19723 exam_sim]
   \<and> distinct (map uniqueId
       [goalItem 19723 exam_cycle ''mat'' (mat_queued quiz_goal) 15, simuladoItem 19723 exam_sim])"
proof -
  have h1: "wellFormedIds exam_plan [exam_sim]"
    by (simp add: wellFormedIds_def underscoreFree_def exam_plan_def exam_cycle_def exam_sim_def
        mat_goal1_def quiz_goal_def)
  note h2 = exam_scenario
  from h1 h2 unique_ids_per_day [OF h1 h2] show ?thesis by blast
qed


text \<open>
  \<^bold>\<open>C6\<close>.  The date under which a day's list is stored is the UTC date of local midnight
  (\<^verbatim>\<open>toISOString\<close> of a \<^verbatim>\<open>Date\<close> built from \<^verbatim>\<open>startDateStr + 'T00:00:00'\<close>).  East of UTC
  that is the day before: with start date 19723 (Monday, 2024-01-01), a zone at UTC+1 and
  60 minutes on Sundays, the agenda has an entry for day 19722, the day before the start
  date.  (\<open>agenda_keys\<close> gives what holds in general: every key maps to a non-empty
  list, belongs to a weekday with minutes, and lies in the 90 days that begin at
  \<open>startDate + tzOffset div 1440\<close>; \<open>agenda_keys_west\<close> is the claimed interval, for a
  zone at or west of UTC.)
\<close>

theorem east_of_utc_key_before_start:
  "generateSchedule (flat_calc 30) (-60) mat_plan (sunday_routine 60) 19723 [] iniciante False [] []
     19722 =
     Some [goalItem 19722 mat_cycle ''mat'' (mat_queued mat_goal1) 30,
           goalItem 19722 mat_cycle ''mat'' (mat_queued mat_goal2) 30]"
  by code_simp












end
